theory Spec2Isabelle
  imports Main "HOL-Library.Char_ord" "HOL-Library.List_Lexorder"
begin

section \<open>Python values\<close>

text \<open>
  The three source files exchange JSON-shaped Python values: what \<^verbatim>\<open>json.loads\<close> returns,
  what \<^verbatim>\<open>yaml.safe_load\<close> returns for a compose file, and what \<^verbatim>\<open>json.dumps\<close> accepts.
  A \<^verbatim>\<open>dict\<close> is an association list in insertion order (the order \<^verbatim>\<open>items()\<close>,
  \<^verbatim>\<open>json.dumps\<close> and \<^verbatim>\<open>urlencode\<close> walk it in); a Python dict never holds a key twice.
  A \<^verbatim>\<open>str\<close> is a list of code points below 256. A float is one of the three special
  values or a finite one given by sign, significand and binary exponent.
\<close>

datatype pyfloat = FNaN | FInf | FNegInf | FFinite bool nat int

datatype json =
    JNull
  | JBool bool
  | JInt int
  | JFloat pyfloat
  | JStr string
  | JList "json list"
  | JDict "(string \<times> json) list"

type_synonym pydict = "(string \<times> json) list"

text \<open>\<^verbatim>\<open>d.get(k)\<close>, \<^verbatim>\<open>k in d\<close>, \<^verbatim>\<open>d[k] = v\<close> and \<^verbatim>\<open>d.update(e)\<close> on a dict.
  Assignment to a key that is present keeps the key's position; a new key goes last.\<close>

definition dict_get :: "pydict \<Rightarrow> string \<Rightarrow> json option" where
  "dict_get d k = map_of d k"

definition dict_get_default :: "pydict \<Rightarrow> string \<Rightarrow> json \<Rightarrow> json" where
  "dict_get_default d k dflt = (case dict_get d k of None \<Rightarrow> dflt | Some v \<Rightarrow> v)"

fun dict_set :: "string \<Rightarrow> json \<Rightarrow> pydict \<Rightarrow> pydict" where
  "dict_set k v [] = [(k, v)]"
| "dict_set k v ((k', v') # d) =
     (if k' = k then (k, v) # d else (k', v') # dict_set k v d)"

definition dict_update :: "pydict \<Rightarrow> pydict \<Rightarrow> pydict" where
  "dict_update d items = foldl (\<lambda>acc (k, v). dict_set k v acc) d items"

text \<open>A dict display or comprehension inserts its items from left to right into an empty dict.\<close>

definition dict_of_items :: "pydict \<Rightarrow> pydict" where
  "dict_of_items items = dict_update [] items"

text \<open>Decimal rendering of an \<^verbatim>\<open>int\<close>, as \<^verbatim>\<open>str\<close> and \<^verbatim>\<open>json.dumps\<close> write it.\<close>

definition digit_char :: "nat \<Rightarrow> char" where
  "digit_char n = ''0123456789'' ! n"

fun str_nat :: "nat \<Rightarrow> string" where
  "str_nat n = (if n < 10 then [digit_char n] else str_nat (n div 10) @ [digit_char (n mod 10)])"

declare str_nat.simps [simp del]

definition str_int :: "int \<Rightarrow> string" where
  "str_int i = (if i < 0 then CHR ''-'' # str_nat (nat (- i)) else str_nat (nat i))"

text \<open>\<^verbatim>\<open>sep.join(parts)\<close>.\<close>

fun join :: "string \<Rightarrow> string list \<Rightarrow> string" where
  "join sep [] = []"
| "join sep [p] = p"
| "join sep (p # q # ps) = p @ sep @ join sep (q # ps)"

subsection \<open>Exceptions\<close>

text \<open>
  A request field can hold any JSON value, so every operation the service applies to one
  has a branch for each type, raising what the interpreter raises (message wording of
  CPython 3.11). \<open>JSONDecodeError\<close> is the parser's exception, \<open>BackendError\<close> an exception
  raised with the given message by code outside the repository.
\<close>

datatype pyexn =
    TypeError string
  | KeyError string
  | AttributeError string
  | JSONDecodeError string
  | BackendError string

text \<open>Sequencing of statements that can raise: the first exception ends the block.\<close>

definition try_then :: "pyexn + 'a \<Rightarrow> ('a \<Rightarrow> pyexn + 'b) \<Rightarrow> pyexn + 'b" where
  "try_then m f = (case m of Inl e \<Rightarrow> Inl e | Inr x \<Rightarrow> f x)"

text \<open>
  Library code outside the repository is a parameter of the model: the text of a finite
  float (\<^verbatim>\<open>float.__repr__\<close>), \<^verbatim>\<open>str\<close> of a list or dict, the JSON parser (\<open>Inl\<close> is the
  exception it raises) and SHA-256. So are the two effects \<^verbatim>\<open>int(time.time())\<close> and
  \<^verbatim>\<open>secrets.token_hex(16)\<close>, given as the value drawn in the n-th iteration of the
  service loop.
\<close>

record pylib =
  float_repr :: "bool \<Rightarrow> nat \<Rightarrow> int \<Rightarrow> string"
  container_str :: "json \<Rightarrow> string"
  json_loads :: "string \<Rightarrow> pyexn + json"
  sha256_hexdigest :: "string \<Rightarrow> string"
  time_now :: "nat \<Rightarrow> int"
  token_hex16 :: "nat \<Rightarrow> string"

subsection \<open>json.dumps\<close>

definition backslash :: char where
  "backslash = CHR 0x5C"

definition hex_digit :: "nat \<Rightarrow> char" where
  "hex_digit n = ''0123456789abcdef'' ! n"

definition u_escape :: "char \<Rightarrow> string" where
  "u_escape c =
     [backslash, CHR ''u'', CHR ''0'', CHR ''0'',
      hex_digit (of_char c div 16), hex_digit (of_char c mod 16)]"

text \<open>One character of a JSON string: the short escapes, \<^verbatim>\<open>\u00XX\<close> for the other control
  characters and, under \<^verbatim>\<open>ensure_ascii\<close>, for everything outside space .. tilde.\<close>

definition escape_char :: "bool \<Rightarrow> char \<Rightarrow> string" where
  "escape_char ascii c =
     (if c = CHR 0x22 then [backslash, CHR 0x22]
      else if c = backslash then [backslash, backslash]
      else if c = CHR 0x0A then [backslash, CHR ''n'']
      else if c = CHR 0x0D then [backslash, CHR ''r'']
      else if c = CHR 0x09 then [backslash, CHR ''t'']
      else if c = CHR 0x08 then [backslash, CHR ''b'']
      else if c = CHR 0x0C then [backslash, CHR ''f'']
      else if (of_char c :: nat) < 32 then u_escape c
      else if ascii \<and> (of_char c :: nat) > 126 then u_escape c
      else [c])"

definition encode_basestring :: "bool \<Rightarrow> string \<Rightarrow> string" where
  "encode_basestring ascii s = CHR 0x22 # concat (map (escape_char ascii) s) @ [CHR 0x22]"

definition json_float :: "pylib \<Rightarrow> pyfloat \<Rightarrow> string" where
  "json_float L f =
     (case f of
        FNaN \<Rightarrow> ''NaN''
      | FInf \<Rightarrow> ''Infinity''
      | FNegInf \<Rightarrow> ''-Infinity''
      | FFinite s m e \<Rightarrow> float_repr L s m e)"

record dumps_format =
  item_separator :: string
  key_separator :: string
  ensure_ascii :: bool

lemma size_dict_value [termination_simp]:
  "(k, v) \<in> set d \<Longrightarrow> size v < Suc (size_list (\<lambda>x. Suc (size (snd x))) d)"
  by (induction d) auto

fun json_dumps :: "pylib \<Rightarrow> dumps_format \<Rightarrow> json \<Rightarrow> string" where
  "json_dumps L F JNull = ''null''"
| "json_dumps L F (JBool b) = (if b then ''true'' else ''false'')"
| "json_dumps L F (JInt i) = str_int i"
| "json_dumps L F (JFloat f) = json_float L f"
| "json_dumps L F (JStr s) = encode_basestring (ensure_ascii F) s"
| "json_dumps L F (JList xs) =
     ''['' @ join (item_separator F) (map (json_dumps L F) xs) @ '']''"
| "json_dumps L F (JDict d) =
     ''{'' @ join (item_separator F)
       (map (\<lambda>(k, v). encode_basestring (ensure_ascii F) k @ key_separator F @ json_dumps L F v) d)
     @ ''}''"

section \<open>enclave-tools/get_compose_hash.py\<close>

text \<open>\<^verbatim>\<open>sorted(obj.items())\<close>: the items are (key, value) tuples; the keys of a dict are
  pairwise different, so the tuple comparison is decided by the keys alone, which Python
  compares by code point. \<^verbatim>\<open>sorted\<close> is stable.\<close>

definition sorted_items :: "pydict \<Rightarrow> pydict" where
  "sorted_items d = sort_key fst d"

lemma size_sorted_items_value [termination_simp]:
  "(k, v) \<in> set (sorted_items d) \<Longrightarrow> size v < Suc (size_list (\<lambda>x. Suc (size (snd x))) d)"
  by (simp add: sorted_items_def size_dict_value)

fun sort_object :: "json \<Rightarrow> json" where
  "sort_object JNull = JNull"
| "sort_object (JList xs) = JList (map sort_object xs)"
| "sort_object (JDict d) =
     JDict (dict_of_items (map (\<lambda>(key, v). (key, sort_object v)) (sorted_items d)))"
| "sort_object obj = obj"

text \<open>\<^verbatim>\<open>obj != obj\<close> holds of NaN only; the two infinities are compared by \<^verbatim>\<open>==\<close>.\<close>

fun convert_special_values :: "json \<Rightarrow> json" where
  "convert_special_values (JFloat f) =
     (if f = FNaN then JNull
      else if f = FInf \<or> f = FNegInf then JNull
      else JFloat f)"
| "convert_special_values obj = obj"

fun process_data :: "json \<Rightarrow> json" where
  "process_data (JDict d) = JDict (dict_of_items (map (\<lambda>(key, v). (key, process_data v)) d))"
| "process_data (JList xs) = JList (map process_data xs)"
| "process_data obj = convert_special_values obj"

definition compact_format :: dumps_format where
  "compact_format = \<lparr>item_separator = '','', key_separator = '':'', ensure_ascii = False\<rparr>"

definition to_deterministic_json :: "pylib \<Rightarrow> json \<Rightarrow> string" where
  "to_deterministic_json L data =
     (let sorted_data = sort_object data;
          processed_data = process_data sorted_data
      in json_dumps L compact_format processed_data)"

definition get_compose_hash :: "pylib \<Rightarrow> json \<Rightarrow> string" where
  "get_compose_hash L app_compose_data =
     (let manifest_str = to_deterministic_json L app_compose_data
      in sha256_hexdigest L manifest_str)"

text \<open>The dict invariant, at every nesting level: no key occurs twice.\<close>

fun distinct_keys :: "json \<Rightarrow> bool" where
  "distinct_keys (JList xs) = (\<forall>x \<in> set xs. distinct_keys x)"
| "distinct_keys (JDict d) = (distinct (map fst d) \<and> (\<forall>(k, v) \<in> set d. distinct_keys v))"
| "distinct_keys obj = True"

text \<open>Two values are equal as maps: the same scalars, lists equal element by element, dicts
  with the same keys bound to values that are equal as maps, whatever the insertion order.\<close>

fun same_map :: "json \<Rightarrow> json \<Rightarrow> bool" where
  "same_map (JList xs) (JList ys) = list_all2 same_map xs ys"
| "same_map (JDict d) (JDict e) =
     (set (map fst d) = set (map fst e) \<and>
      (\<forall>(k, v) \<in> set d. \<forall>(k', v') \<in> set e. k = k' \<longrightarrow> same_map v v'))"
| "same_map a b = (a = b)"

text \<open>The keys of every dict inside a value are in ascending order.\<close>

fun keys_sorted :: "json \<Rightarrow> bool" where
  "keys_sorted (JList xs) = (\<forall>x \<in> set xs. keys_sorted x)"
| "keys_sorted (JDict d) = (sorted (map fst d) \<and> (\<forall>(k, v) \<in> set d. keys_sorted v))"
| "keys_sorted obj = True"

section \<open>Python operations the service applies to request data\<close>

definition quoted :: "string \<Rightarrow> string" where
  "quoted s = CHR 0x27 # s @ [CHR 0x27]"

text \<open>\<^verbatim>\<open>str(e)\<close>; for a \<^verbatim>\<open>KeyError\<close> it is the \<^verbatim>\<open>repr\<close> of the key.\<close>

fun exn_str :: "pyexn \<Rightarrow> string" where
  "exn_str (TypeError m) = m"
| "exn_str (KeyError k) = quoted k"
| "exn_str (AttributeError m) = m"
| "exn_str (JSONDecodeError m) = m"
| "exn_str (BackendError m) = m"

fun type_name :: "json \<Rightarrow> string" where
  "type_name JNull = ''NoneType''"
| "type_name (JBool b) = ''bool''"
| "type_name (JInt i) = ''int''"
| "type_name (JFloat f) = ''float''"
| "type_name (JStr s) = ''str''"
| "type_name (JList xs) = ''list''"
| "type_name (JDict d) = ''dict''"

text \<open>Truth value of an object, as \<^verbatim>\<open>if x\<close> and \<^verbatim>\<open>and\<close> take it.\<close>

fun truthy :: "json \<Rightarrow> bool" where
  "truthy JNull = False"
| "truthy (JBool b) = b"
| "truthy (JInt i) = (i \<noteq> 0)"
| "truthy (JFloat f) = (case f of FFinite s m e \<Rightarrow> m \<noteq> 0 | _ \<Rightarrow> True)"
| "truthy (JStr s) = (s \<noteq> [])"
| "truthy (JList xs) = (xs \<noteq> [])"
| "truthy (JDict d) = (d \<noteq> [])"

fun is_substring :: "string \<Rightarrow> string \<Rightarrow> bool" where
  "is_substring s [] = (s = [])"
| "is_substring s (c # cs) = (take (length s) (c # cs) = s \<or> is_substring s cs)"

text \<open>\<^verbatim>\<open>key in obj\<close> for a string \<^verbatim>\<open>key\<close>: key membership in a dict, element membership in
  a list, substring test in a string, \<^verbatim>\<open>TypeError\<close> otherwise.\<close>

fun str_in :: "string \<Rightarrow> json \<Rightarrow> pyexn + bool" where
  "str_in key (JDict d) = Inr (key \<in> set (map fst d))"
| "str_in key (JList xs) = Inr (JStr key \<in> set xs)"
| "str_in key (JStr s) = Inr (is_substring key s)"
| "str_in key obj =
     Inl (TypeError (''argument of type '' @ quoted (type_name obj) @ '' is not iterable''))"

text \<open>\<^verbatim>\<open>obj[key]\<close> for a string \<^verbatim>\<open>key\<close>.\<close>

fun subscript :: "json \<Rightarrow> string \<Rightarrow> pyexn + json" where
  "subscript (JDict d) key =
     (case dict_get d key of None \<Rightarrow> Inl (KeyError key) | Some v \<Rightarrow> Inr v)"
| "subscript (JList xs) key =
     Inl (TypeError ''list indices must be integers or slices, not str'')"
| "subscript (JStr s) key =
     Inl (TypeError (''string indices must be integers, not '' @ quoted ''str''))"
| "subscript obj key =
     Inl (TypeError (quoted (type_name obj) @ '' object is not subscriptable''))"

text \<open>\<^verbatim>\<open>obj.get(key, default)\<close>: only a dict has the method.\<close>

fun py_get :: "json \<Rightarrow> string \<Rightarrow> json \<Rightarrow> pyexn + json" where
  "py_get (JDict d) key dflt = Inr (dict_get_default d key dflt)"
| "py_get obj key dflt =
     Inl (AttributeError
       (quoted (type_name obj) @ '' object has no attribute '' @ quoted ''get''))"

text \<open>\<^verbatim>\<open>{**obj}\<close>.\<close>

fun dict_copy :: "json \<Rightarrow> pyexn + pydict" where
  "dict_copy (JDict d) = Inr d"
| "dict_copy obj = Inl (TypeError (quoted (type_name obj) @ '' object is not a mapping''))"

definition float_str :: "pylib \<Rightarrow> pyfloat \<Rightarrow> string" where
  "float_str L f =
     (case f of
        FNaN \<Rightarrow> ''nan''
      | FInf \<Rightarrow> ''inf''
      | FNegInf \<Rightarrow> ''-inf''
      | FFinite s m e \<Rightarrow> float_repr L s m e)"

text \<open>\<^verbatim>\<open>str(obj)\<close>, which is also what an f-string field and \<^verbatim>\<open>urlencode\<close> apply.\<close>

fun py_str :: "pylib \<Rightarrow> json \<Rightarrow> string" where
  "py_str L JNull = ''None''"
| "py_str L (JBool b) = (if b then ''True'' else ''False'')"
| "py_str L (JInt i) = str_int i"
| "py_str L (JFloat f) = float_str L f"
| "py_str L (JStr s) = s"
| "py_str L obj = container_str L obj"

text \<open>\<^verbatim>\<open>urllib.parse.quote_plus\<close> with no extra safe characters: letters, digits and
  \<^verbatim>\<open>_.-~\<close> stay, a space becomes a plus sign, every other character becomes the
  percent-encoded bytes of its UTF-8 form.\<close>

definition hex_digit_upper :: "nat \<Rightarrow> char" where
  "hex_digit_upper n = ''0123456789ABCDEF'' ! n"

definition percent_byte :: "nat \<Rightarrow> string" where
  "percent_byte n = [CHR ''%'', hex_digit_upper (n div 16), hex_digit_upper (n mod 16)]"

definition utf8_bytes :: "char \<Rightarrow> nat list" where
  "utf8_bytes c =
     (let n = (of_char c :: nat)
      in if n < 128 then [n] else [192 + n div 64, 128 + n mod 64])"

definition always_safe :: "char \<Rightarrow> bool" where
  "always_safe c =
     (let n = (of_char c :: nat)
      in (48 \<le> n \<and> n \<le> 57) \<or> (65 \<le> n \<and> n \<le> 90) \<or> (97 \<le> n \<and> n \<le> 122)
         \<or> c \<in> set ''_.-~'')"

definition quote_plus_char :: "char \<Rightarrow> string" where
  "quote_plus_char c =
     (if c = CHR '' '' then ''+''
      else if always_safe c then [c]
      else concat (map percent_byte (utf8_bytes c)))"

definition quote_plus :: "string \<Rightarrow> string" where
  "quote_plus s = concat (map quote_plus_char s)"

text \<open>\<^verbatim>\<open>urllib.parse.urlencode\<close> of a dict: one \<^verbatim>\<open>key=value\<close> per item in dict order, both
  sides through \<^verbatim>\<open>quote_plus(str(.))\<close>, joined by an ampersand.\<close>

definition urlencode :: "pylib \<Rightarrow> pydict \<Rightarrow> string" where
  "urlencode L query =
     join ''&'' (map (\<lambda>(k, v). quote_plus k @ ''='' @ quote_plus (py_str L v)) query)"

definition py_isspace :: "char \<Rightarrow> bool" where
  "py_isspace c =
     (let n = (of_char c :: nat)
      in (9 \<le> n \<and> n \<le> 13) \<or> (28 \<le> n \<and> n \<le> 32) \<or> n = 133 \<or> n = 160)"

definition strip :: "string \<Rightarrow> string" where
  "strip s = rev (dropWhile py_isspace (rev (dropWhile py_isspace s)))"

section \<open>tokscope-enclave/security-service/security_service_subprocess.py\<close>

text \<open>
  The signing modules (\<^verbatim>\<open>lib/XGorgon\<close>, \<^verbatim>\<open>lib/XArgus\<close>, \<^verbatim>\<open>lib/XLadon\<close>) are opaque: each
  \<^verbatim>\<open>get_value\<close> is a parameter that returns a value or raises. Arguments in call order:
  \<^verbatim>\<open>gorgon.get_value(params, stub, headers_dict, timestamp)\<close> (\<^verbatim>\<open>data\<close> is always
  \<^verbatim>\<open>None\<close>), \<^verbatim>\<open>argus.get_value(params, cookies, timestamp)\<close>, \<^verbatim>\<open>ladon.get_value(params)\<close>.
  The logger writes to stderr; a record is its level and message.
\<close>

record signer =
  gorgon_get_value :: "json \<Rightarrow> json \<Rightarrow> json \<Rightarrow> json \<Rightarrow> pyexn + json"
  argus_get_value :: "json \<Rightarrow> json \<Rightarrow> json \<Rightarrow> pyexn + json"
  ladon_get_value :: "json \<Rightarrow> pyexn + json"

datatype log_level = INFO | ERROR

type_synonym log_record = "log_level \<times> string"

subsection \<open>generate_headers (lines 40-73)\<close>

definition generate_headers_try ::
  "pylib \<Rightarrow> signer \<Rightarrow> json \<Rightarrow> json \<Rightarrow> json \<Rightarrow> json \<Rightarrow> pyexn + pydict" where
  "generate_headers_try L S params cookies stub timestamp =
     (let headers_dict = (if truthy cookies then [(''cookie'', cookies)] else [])
      in try_then (gorgon_get_value S params stub (JDict headers_dict) timestamp) (\<lambda>gorgon_result.
         try_then (argus_get_value S params cookies timestamp) (\<lambda>argus_value.
         try_then (ladon_get_value S params) (\<lambda>ladon_value.
         try_then (py_get gorgon_result ''X-Gorgon'' (JStr '''')) (\<lambda>x_gorgon.
         try_then (py_get gorgon_result ''X-Khronos'' timestamp) (\<lambda>x_khronos.
           Inr [(''X-Gorgon'', x_gorgon),
                (''X-Khronos'', JStr (py_str L x_khronos)),
                (''X-Argus'', argus_value),
                (''X-Ladon'', ladon_value)]))))))"

text \<open>The \<^verbatim>\<open>except Exception\<close> clause logs and re-raises the same exception.\<close>

definition generate_headers ::
  "pylib \<Rightarrow> signer \<Rightarrow> json \<Rightarrow> json \<Rightarrow> json \<Rightarrow> json \<Rightarrow> log_record list \<times> (pyexn + pydict)" where
  "generate_headers L S params cookies stub timestamp =
     (case generate_headers_try L S params cookies stub timestamp of
        Inl e \<Rightarrow> ([(ERROR, ''Header generation failed: '' @ exn_str e)], Inl e)
      | Inr headers \<Rightarrow> ([], Inr headers))"

subsection \<open>build_authenticated_params (lines 75-113)\<close>

text \<open>Lines 85-90: device identifiers from the session.\<close>

definition add_device_info :: "pydict \<Rightarrow> json \<Rightarrow> pyexn + pydict" where
  "add_device_info params session_data =
     try_then (str_in ''tokens'' session_data) (\<lambda>has_tokens.
       if has_tokens then
         try_then (subscript session_data ''tokens'') (\<lambda>tokens.
         try_then (str_in ''device_id'' tokens) (\<lambda>has_device_id.
         try_then (if has_device_id
                   then try_then (subscript tokens ''device_id'') (\<lambda>v.
                          Inr (dict_set ''device_id'' v params))
                   else Inr params) (\<lambda>params1.
         try_then (str_in ''install_id'' tokens) (\<lambda>has_install_id.
           if has_install_id
           then try_then (subscript tokens ''install_id'') (\<lambda>v.
                  Inr (dict_set ''iid'' v params1))
           else Inr params1))))
       else Inr params)"

text \<open>Lines 96-101: the cookie string. The list comprehension formats the items from left
  to right, \<^verbatim>\<open>c['name']\<close> before \<^verbatim>\<open>c['value']\<close>, and stops at the first exception.\<close>

definition cookie_item :: "pylib \<Rightarrow> json \<Rightarrow> pyexn + string" where
  "cookie_item L c =
     try_then (subscript c ''name'') (\<lambda>name.
     try_then (subscript c ''value'') (\<lambda>val.
       Inr (py_str L name @ ''='' @ py_str L val)))"

fun cookie_items :: "pylib \<Rightarrow> json list \<Rightarrow> pyexn + string list" where
  "cookie_items L [] = Inr []"
| "cookie_items L (c # cs) =
     try_then (cookie_item L c) (\<lambda>p.
     try_then (cookie_items L cs) (\<lambda>ps. Inr (p # ps)))"

definition session_cookies :: "pylib \<Rightarrow> json \<Rightarrow> pyexn + string" where
  "session_cookies L session_data =
     try_then (str_in ''cookies'' session_data) (\<lambda>has_cookies.
       if has_cookies then
         try_then (subscript session_data ''cookies'') (\<lambda>field.
           if truthy field then
             (case field of
                JList cs \<Rightarrow> try_then (cookie_items L cs) (\<lambda>parts. Inr (join ''; '' parts))
              | JStr s \<Rightarrow> Inr s
              | _ \<Rightarrow> Inr '''')
           else Inr '''')
       else Inr '''')"

text \<open>The try block. \<open>timestamp\<close> and \<open>stub\<close> are the values \<^verbatim>\<open>int(time.time())\<close> and
  \<^verbatim>\<open>secrets.token_hex(16)\<close> gave on lines 78-79.\<close>

definition build_authenticated_params_try ::
  "pylib \<Rightarrow> signer \<Rightarrow> json \<Rightarrow> json \<Rightarrow> int \<Rightarrow> string \<Rightarrow> log_record list \<times> (pyexn + pydict)" where
  "build_authenticated_params_try L S base_params session_data timestamp stub =
     (case dict_copy base_params of
        Inl e \<Rightarrow> ([], Inl e)
      | Inr params0 \<Rightarrow>
     (case add_device_info params0 session_data of
        Inl e \<Rightarrow> ([], Inl e)
      | Inr params \<Rightarrow>
     (let params_string = urlencode L params
      in case session_cookies L session_data of
        Inl e \<Rightarrow> ([], Inl e)
      | Inr cookies \<Rightarrow>
     (case generate_headers L S (JStr params_string) (JStr cookies) (JStr stub) (JInt timestamp) of
        (log, Inl e) \<Rightarrow> (log, Inl e)
      | (log, Inr headers) \<Rightarrow> (log, Inr (dict_update params headers))))))"

definition build_authenticated_params ::
  "pylib \<Rightarrow> signer \<Rightarrow> json \<Rightarrow> json \<Rightarrow> int \<Rightarrow> string \<Rightarrow> log_record list \<times> (pyexn + pydict)" where
  "build_authenticated_params L S base_params session_data timestamp stub =
     (case build_authenticated_params_try L S base_params session_data timestamp stub of
        (log, Inl e) \<Rightarrow> (log @ [(ERROR, ''buildAuthenticatedParams failed: '' @ exn_str e)], Inl e)
      | (log, Inr params) \<Rightarrow> (log, Inr params))"

text \<open>Step 2 of the parameter assembler in the words of the specification: the session's
  \<^verbatim>\<open>device_id\<close> goes under key \<^verbatim>\<open>device_id\<close> and its \<^verbatim>\<open>install_id\<close> under key \<^verbatim>\<open>iid\<close>, each
  only if it is present.\<close>

definition with_device_ids :: "pydict \<Rightarrow> pydict \<Rightarrow> pydict" where
  "with_device_ids tokens params =
     (let params1 = (case dict_get tokens ''device_id'' of
                       None \<Rightarrow> params
                     | Some v \<Rightarrow> dict_set ''device_id'' v params)
      in case dict_get tokens ''install_id'' of
           None \<Rightarrow> params1
         | Some v \<Rightarrow> dict_set ''iid'' v params1)"

text \<open>The name and the value of a cookie that is given as a \<^verbatim>\<open>{name, value}\<close> pair.\<close>

definition cookie_fields :: "json \<Rightarrow> (json \<times> json) option" where
  "cookie_fields c =
     (case c of
        JDict d \<Rightarrow>
          (case dict_get d ''name'' of
             None \<Rightarrow> None
           | Some n \<Rightarrow> (case dict_get d ''value'' of None \<Rightarrow> None | Some v \<Rightarrow> Some (n, v)))
      | _ \<Rightarrow> None)"

subsection \<open>handle_request (lines 115-176)\<close>

text \<open>\<open>now\<close> and \<open>token\<close> are what \<^verbatim>\<open>int(time.time())\<close> and \<^verbatim>\<open>secrets.token_hex(16)\<close>
  give while this request is handled. The keys of each dict display are different
  literals, so the dict is the list of its items.\<close>

definition api_config :: json where
  "api_config =
     JDict [(''baseUrl'', JStr ''https://api16-normal-c-useast1a.tiktokv.com''),
            (''userAgent'', JStr ''okhttp/3.12.13''),
            (''endpoints'', JDict [(''feed'', JStr ''/aweme/v1/feed/''),
                                   (''recommended'', JStr ''/aweme/v1/feed/'')])]"

definition handle_request ::
  "pylib \<Rightarrow> signer \<Rightarrow> json \<Rightarrow> int \<Rightarrow> string \<Rightarrow> log_record list \<times> (pyexn + json)" where
  "handle_request L S request now token =
     (case try_then (py_get request ''action'' JNull) (\<lambda>action.
           try_then (py_get request ''requestId'' JNull) (\<lambda>request_id.
             Inr (action, request_id))) of
        Inl e \<Rightarrow> ([], Inl e)
      | Inr (action, request_id) \<Rightarrow>
          if action = JStr ''getApiConfig'' then
            ([], Inr (JDict [(''success'', JBool True),
                             (''requestId'', request_id),
                             (''config'', api_config)]))
          else if action = JStr ''generateDeviceAuth'' then
            ([], try_then (py_get request ''secUserId'' (JStr '''')) (\<lambda>sec_user_id.
                   Inr (JDict [(''success'', JBool True),
                               (''requestId'', request_id),
                               (''deviceAuth'', JDict [(''sec_user_id'', sec_user_id)])])))
          else if action = JStr ''buildAuthenticatedParams'' then
            (case try_then (py_get request ''baseParams'' (JDict [])) (\<lambda>base_params.
                  try_then (py_get request ''sessionData'' (JDict [])) (\<lambda>session_data.
                    Inr (base_params, session_data))) of
               Inl e \<Rightarrow> ([], Inl e)
             | Inr (base_params, session_data) \<Rightarrow>
                 (case build_authenticated_params L S base_params session_data now token of
                    (log, Inl e) \<Rightarrow> (log, Inl e)
                  | (log, Inr authenticated_params) \<Rightarrow>
                      (log, Inr (JDict [(''success'', JBool True),
                                        (''requestId'', request_id),
                                        (''params'', JDict authenticated_params)]))))
          else if action = JStr ''generateHeaders'' then
            (case try_then (py_get request ''params'' (JStr '''')) (\<lambda>params.
                  try_then (py_get request ''cookies'' (JStr '''')) (\<lambda>cookies.
                  try_then (py_get request ''stub'' (JStr token)) (\<lambda>stub.
                  try_then (py_get request ''timestamp'' (JInt now)) (\<lambda>timestamp.
                    Inr (params, cookies, stub, timestamp))))) of
               Inl e \<Rightarrow> ([], Inl e)
             | Inr (params, cookies, stub, timestamp) \<Rightarrow>
                 (case generate_headers L S params cookies stub timestamp of
                    (log, Inl e) \<Rightarrow> (log, Inl e)
                  | (log, Inr headers) \<Rightarrow>
                      (log, Inr (JDict [(''success'', JBool True),
                                        (''requestId'', request_id),
                                        (''headers'', JDict headers)]))))
          else
            ([], Inr (JDict [(''success'', JBool False),
                             (''requestId'', request_id),
                             (''error'', JStr (''Unknown action: '' @ py_str L action))])))"

subsection \<open>run (lines 178-211)\<close>

text \<open>
  The state of the process: the decoded text still unread on stdin, the lines printed to
  stdout, the log records on stderr and the number of loop iterations completed.
  \<^verbatim>\<open>readline\<close> returns the text up to and including the next newline, the whole rest if
  there is none, and the empty string only at the end of the stream.
\<close>

record service_state =
  stdin :: string
  stdout :: "string list"
  stderr :: "log_record list"
  iteration :: nat

fun readline :: "string \<Rightarrow> string \<times> string" where
  "readline [] = ([], [])"
| "readline (c # cs) =
     (if c = CHR 0x0A then ([c], cs)
      else (case readline cs of (line, rest) \<Rightarrow> (c # line, rest)))"

definition default_format :: dumps_format where
  "default_format = \<lparr>item_separator = '', '', key_separator = '': '', ensure_ascii = True\<rparr>"

text \<open>The two \<^verbatim>\<open>except\<close> clauses of the loop: which one runs depends on the class of the
  exception alone, wherever in the try block it was raised.\<close>

definition except_clauses :: "pylib \<Rightarrow> pyexn \<Rightarrow> log_record list \<times> string" where
  "except_clauses L e =
     (case e of
        JSONDecodeError m \<Rightarrow>
          ([], json_dumps L default_format
                 (JDict [(''success'', JBool False),
                         (''error'', JStr (''Invalid JSON: '' @ exn_str e))]))
      | _ \<Rightarrow>
          ([(ERROR, ''Request handling error: '' @ exn_str e)],
           json_dumps L default_format
             (JDict [(''success'', JBool False),
                     (''error'', JStr (exn_str e))])))"

text \<open>One iteration for a line that was read: the log records it adds and the line it prints.\<close>

definition serve_line :: "pylib \<Rightarrow> signer \<Rightarrow> nat \<Rightarrow> string \<Rightarrow> log_record list \<times> string" where
  "serve_line L S n line =
     (case json_loads L (strip line) of
        Inl e \<Rightarrow> except_clauses L e
      | Inr request \<Rightarrow>
          (case handle_request L S request (time_now L n) (token_hex16 L n) of
             (log, Inl e) \<Rightarrow> (case except_clauses L e of (log', out) \<Rightarrow> (log @ log', out))
           | (log, Inr response) \<Rightarrow> (log, json_dumps L default_format response)))"

lemma readline_append: "readline s = (line, rest) \<Longrightarrow> s = line @ rest"
  by (induction s arbitrary: line rest) (auto split: if_splits prod.splits)

lemma readline_shorter:
  "(line, rest) = readline s \<Longrightarrow> line \<noteq> [] \<Longrightarrow> length rest < length s"
  using readline_append [of s line rest] by auto

function run_loop :: "pylib \<Rightarrow> signer \<Rightarrow> service_state \<Rightarrow> service_state" where
  "run_loop L S st =
     (case readline (stdin st) of
        (line, rest) \<Rightarrow>
          if line = [] then st
          else (case serve_line L S (iteration st) line of
                  (log, out) \<Rightarrow>
                    run_loop L S
                      \<lparr>stdin = rest,
                       stdout = stdout st @ [out],
                       stderr = stderr st @ log,
                       iteration = Suc (iteration st)\<rparr>))"
  by pat_completeness auto
termination
  by (relation "measure (\<lambda>(L, S, st). length (stdin st))") (auto simp: readline_shorter)

declare run_loop.simps [simp del]

definition run :: "pylib \<Rightarrow> signer \<Rightarrow> string \<Rightarrow> service_state" where
  "run L S input =
     run_loop L S
       \<lparr>stdin = input,
        stdout = [],
        stderr = [(INFO, ''Security service subprocess started, waiting for requests...'')],
        iteration = 0\<rparr>"

text \<open>The input stream seen as its lines: each ends with its newline, except that the last
  one has none when the stream does not end with a newline.\<close>

fun input_lines :: "string \<Rightarrow> string list" where
  "input_lines [] = []"
| "input_lines (c # cs) =
     (if c = CHR 0x0A then [c] # input_lines cs
      else (case input_lines cs of [] \<Rightarrow> [[c]] | l # ls \<Rightarrow> (c # l) # ls))"

text \<open>What the loop does for the lines \<open>ls\<close> when the first of them is read in iteration \<open>n\<close>.\<close>

definition served :: "pylib \<Rightarrow> signer \<Rightarrow> nat \<Rightarrow> string list \<Rightarrow> (log_record list \<times> string) list" where
  "served L S n ls = map (\<lambda>(i, line). serve_line L S i line) (enumerate n ls)"


section \<open>tokscope-enclave/security-service/main.py\<close>

text \<open>
  The request body is validated by pydantic before \<^verbatim>\<open>generate_headers\<close> runs: \<^verbatim>\<open>params\<close> and
  \<^verbatim>\<open>cookies\<close> are strings, the other fields are optional. The endpoint constructs the three
  generators on every call; a constructor and each signing method returns or raises.
  Arguments in call order: \<^verbatim>\<open>calculate(params, headers)\<close>,
  \<^verbatim>\<open>get_sign(params, stub, timestamp)\<close>, \<^verbatim>\<open>encrypt(timestamp)\<close>. Log output is left out.
\<close>

record header_request =
  req_params :: string
  req_cookies :: string
  req_stub :: "string option"
  req_timestamp :: "int option"
  req_device_id :: "string option"
  req_install_id :: "string option"

record rest_signer =
  new_XGorgon :: "pyexn option"
  new_XArgus :: "pyexn option"
  new_XLadon :: "pyexn option"
  gorgon_calculate :: "string \<Rightarrow> pydict \<Rightarrow> pyexn + json"
  argus_get_sign :: "string \<Rightarrow> string \<Rightarrow> int \<Rightarrow> pyexn + json"
  ladon_encrypt :: "int \<Rightarrow> pyexn + json"

datatype http_exception = HTTPException int string

definition gorgon_fallback :: string where
  "gorgon_fallback = ''0404000000000000000000000000000000000000''"

definition argus_placeholder :: string where
  "argus_placeholder = ''placeholder_argus_value''"

definition ladon_placeholder :: string where
  "ladon_placeholder = ''placeholder_ladon_value''"

text \<open>Line 86: \<^verbatim>\<open>request.timestamp or int(time.time())\<close>.\<close>

definition request_timestamp :: "header_request \<Rightarrow> int \<Rightarrow> int" where
  "request_timestamp request now =
     (case req_timestamp request of
        None \<Rightarrow> now
      | Some t \<Rightarrow> if t \<noteq> 0 then t else now)"

text \<open>Lines 91-93: the first constructor that raises ends the outer try block.\<close>

definition initialize_generators :: "rest_signer \<Rightarrow> pyexn option" where
  "initialize_generators R =
     (case new_XGorgon R of
        Some e \<Rightarrow> Some e
      | None \<Rightarrow> (case new_XArgus R of Some e \<Rightarrow> Some e | None \<Rightarrow> new_XLadon R))"

text \<open>Lines 98-102: the headers handed to \<^verbatim>\<open>calculate\<close>; line 127: \<^verbatim>\<open>request.stub or ""\<close>.\<close>

definition gorgon_headers_dict :: "header_request \<Rightarrow> pydict" where
  "gorgon_headers_dict request =
     (let headers0 = (if req_cookies request \<noteq> [] then [(''cookie'', JStr (req_cookies request))]
                      else [])
      in case req_stub request of
           None \<Rightarrow> headers0
         | Some s \<Rightarrow> if s \<noteq> [] then dict_set ''x-ss-stub'' (JStr s) headers0 else headers0)"

definition argus_stub :: "header_request \<Rightarrow> string" where
  "argus_stub request = (case req_stub request of None \<Rightarrow> '''' | Some s \<Rightarrow> s)"

text \<open>Lines 96-121, 124-134 and 137-143: the three inner try blocks.\<close>

definition rest_gorgon :: "pylib \<Rightarrow> rest_signer \<Rightarrow> header_request \<Rightarrow> int \<Rightarrow> json \<times> json" where
  "rest_gorgon L R request timestamp =
     (case gorgon_calculate R (req_params request) (gorgon_headers_dict request) of
        Inl e \<Rightarrow> (JStr gorgon_fallback, JStr (str_int timestamp))
      | Inr gorgon_result \<Rightarrow>
          (case gorgon_result of
             JDict d \<Rightarrow> (dict_get_default d ''X-Gorgon'' (JStr gorgon_fallback),
                         dict_get_default d ''X-Khronos'' (JStr (str_int timestamp)))
           | _ \<Rightarrow> (JStr (py_str L gorgon_result), JStr (str_int timestamp))))"

definition rest_argus :: "rest_signer \<Rightarrow> header_request \<Rightarrow> int \<Rightarrow> json" where
  "rest_argus R request timestamp =
     (case argus_get_sign R (req_params request) (argus_stub request) timestamp of
        Inl e \<Rightarrow> JStr argus_placeholder
      | Inr x_argus \<Rightarrow> if \<not> truthy x_argus then JStr argus_placeholder else x_argus)"

definition rest_ladon :: "rest_signer \<Rightarrow> int \<Rightarrow> json" where
  "rest_ladon R timestamp =
     (case ladon_encrypt R timestamp of
        Inl e \<Rightarrow> JStr ladon_placeholder
      | Inr x_ladon \<Rightarrow> if \<not> truthy x_ladon then JStr ladon_placeholder else x_ladon)"

text \<open>The endpoint (lines 80-162); \<open>now\<close> is \<^verbatim>\<open>int(time.time())\<close>. An exception that reaches
  the outer \<^verbatim>\<open>except\<close> becomes an HTTP 500.\<close>

definition rest_generate_headers ::
  "pylib \<Rightarrow> rest_signer \<Rightarrow> header_request \<Rightarrow> int \<Rightarrow> http_exception + json" where
  "rest_generate_headers L R request now =
     (let timestamp = request_timestamp request now
      in case initialize_generators R of
           Some e \<Rightarrow> Inl (HTTPException 500 (exn_str e))
         | None \<Rightarrow>
             (case rest_gorgon L R request timestamp of
                (x_gorgon, x_khronos) \<Rightarrow>
                  (let x_argus = rest_argus R request timestamp;
                       x_ladon = rest_ladon R timestamp;
                       headers = [(''X-Gorgon'', x_gorgon),
                                  (''X-Khronos'', x_khronos),
                                  (''X-Argus'', x_argus),
                                  (''X-Ladon'', x_ladon)]
                   in Inr (JDict [(''success'', JBool True),
                                  (''headers'', JDict headers),
                                  (''timestamp'', JInt timestamp)]))))"

section \<open>Test doubles\<close>

text \<open>
  Concrete stand-ins for the library and the signing modules, used where a statement is
  evaluated at a concrete input. The parser is a table of the lines used below with the
  values \<^verbatim>\<open>json.loads\<close> gives for them; \<open>echo_signer\<close> answers with its own inputs, and
  \<open>failing_signer\<close> raises in the first signing call. For the REST endpoint,
  \<open>gorgon_failing_rest_signer\<close> raises in \<^verbatim>\<open>calculate\<close> only, and the \<^verbatim>\<open>XArgus\<close> constructor of
  \<open>unconstructible_rest_signer\<close> raises.
\<close>

definition table_loads :: "string \<Rightarrow> pyexn + json" where
  \<open>table_loads s =
     (if s = ''{"action": "getApiConfig", "requestId": 1}'' then
        Inr (JDict [(''action'', JStr ''getApiConfig''), (''requestId'', JInt 1)])
      else if s = ''{"action": "bogus", "requestId": 7}'' then
        Inr (JDict [(''action'', JStr ''bogus''), (''requestId'', JInt 7)])
      else if s = ''{"action": "generateHeaders", "requestId": 7}'' then
        Inr (JDict [(''action'', JStr ''generateHeaders''), (''requestId'', JInt 7)])
      else if s = ''{"action": "buildAuthenticatedParams", "requestId": 9}'' then
        Inr (JDict [(''action'', JStr ''buildAuthenticatedParams''), (''requestId'', JInt 9)])
      else Inl (JSONDecodeError ''Expecting value: line 1 column 1 (char 0)''))\<close>

definition demo_lib :: pylib where
  "demo_lib =
     \<lparr>float_repr = (\<lambda>s m e. ''0.0''),
      container_str = (\<lambda>v. ''[]''),
      json_loads = table_loads,
      sha256_hexdigest = (\<lambda>s. take 64 s),
      time_now = (\<lambda>n. 1700000000 + int n),
      token_hex16 = (\<lambda>n. ''00112233445566778899aabbccddeeff'')\<rparr>"

definition echo_signer :: signer where
  "echo_signer =
     \<lparr>gorgon_get_value = (\<lambda>params stub headers_dict timestamp.
         Inr (JDict [(''X-Gorgon'', JStr ''8404''), (''X-Khronos'', timestamp)])),
      argus_get_value = (\<lambda>params cookies timestamp. Inr cookies),
      ladon_get_value = (\<lambda>params. Inr params)\<rparr>"

definition failing_signer :: signer where
  "failing_signer =
     \<lparr>gorgon_get_value = (\<lambda>params stub headers_dict timestamp. Inl (BackendError ''boom'')),
      argus_get_value = (\<lambda>params cookies timestamp. Inr cookies),
      ladon_get_value = (\<lambda>params. Inr params)\<rparr>"

definition gorgon_failing_rest_signer :: rest_signer where
  "gorgon_failing_rest_signer =
     \<lparr>new_XGorgon = None,
      new_XArgus = None,
      new_XLadon = None,
      gorgon_calculate = (\<lambda>params headers. Inl (BackendError ''boom'')),
      argus_get_sign = (\<lambda>params stub timestamp. Inr (JStr ''argus-signature'')),
      ladon_encrypt = (\<lambda>timestamp. Inr (JStr ''ladon-token''))\<rparr>"

definition unconstructible_rest_signer :: rest_signer where
  "unconstructible_rest_signer =
     \<lparr>new_XGorgon = None,
      new_XArgus = Some (BackendError ''init failed''),
      new_XLadon = None,
      gorgon_calculate = (\<lambda>params headers. Inr (JDict [(''X-Gorgon'', JStr ''8404'')])),
      argus_get_sign = (\<lambda>params stub timestamp. Inr (JStr ''argus-signature'')),
      ladon_encrypt = (\<lambda>timestamp. Inr (JStr ''ladon-token''))\<rparr>"

section \<open>Properties of get_compose_hash.py\<close>

lemma dict_set_fresh: "k \<notin> fst ` set d \<Longrightarrow> dict_set k v d = d @ [(k, v)]"
  by (induction d) auto

lemma dict_update_distinct:
  "distinct (map fst (acc @ items)) \<Longrightarrow> dict_update acc items = acc @ items"
proof (induction items arbitrary: acc)
  case Nil
  then show ?case by (simp add: dict_update_def)
next
  case (Cons kv items)
  obtain k v where kv: "kv = (k, v)" by (cases kv)
  from Cons.prems kv have fresh: "k \<notin> fst ` set acc" by auto
  from Cons.prems kv have "distinct (map fst ((acc @ [(k, v)]) @ items))" by auto
  then have "dict_update (acc @ [(k, v)]) items = (acc @ [(k, v)]) @ items"
    by (rule Cons.IH)
  with fresh kv show ?case
    by (simp add: dict_update_def dict_set_fresh)
qed

lemma dict_of_items_distinct: "distinct (map fst items) \<Longrightarrow> dict_of_items items = items"
  using dict_update_distinct [of "[]" items] by (simp add: dict_of_items_def)

lemma map_fst_map_values: "map fst (map (\<lambda>(key, v). (key, f v)) d) = map fst d"
  by (induction d) auto

lemma set_sorted_items: "set (sorted_items d) = set d"
  by (simp add: sorted_items_def)

lemma distinct_sorted_items: "distinct (map fst (sorted_items d)) = distinct (map fst d)"
  by (simp add: sorted_items_def distinct_map)

lemma sorted_sorted_items: "sorted (map fst (sorted_items d))"
  by (simp add: sorted_items_def)

text \<open>On a dict, \<open>sort_object\<close> returns the items in key order with the values sorted inside.\<close>

lemma sort_object_dict:
  assumes "distinct (map fst d)"
  shows "sort_object (JDict d) = JDict (map (\<lambda>(key, v). (key, sort_object v)) (sorted_items d))"
proof -
  have "distinct (map fst (map (\<lambda>(key, v). (key, sort_object v)) (sorted_items d)))"
    using assms by (simp only: map_fst_map_values distinct_sorted_items)
  then show ?thesis
    by (simp add: dict_of_items_distinct)
qed

text \<open>Values that are equal as maps have the same sorted form: two key-sorted item lists
  over the same keys with pairwise equal sorted values are the same list.\<close>

lemma sort_object_same_map:
  "distinct_keys a \<Longrightarrow> distinct_keys b \<Longrightarrow> same_map a b \<Longrightarrow> sort_object a = sort_object b"
proof (induction a b rule: same_map.induct)
  case (1 xs ys)
  from "1.prems" have len: "length xs = length ys"
    by (simp add: list_all2_lengthD)
  have "map sort_object xs = map sort_object ys"
  proof (rule nth_equalityI)
    show "length (map sort_object xs) = length (map sort_object ys)" using len by simp
  next
    fix i assume "i < length (map sort_object xs)"
    then have i: "i < length xs" "i < length ys" using len by simp_all
    then have mem: "xs ! i \<in> set xs" "ys ! i \<in> set ys" by simp_all
    from "1.prems" i have "same_map (xs ! i) (ys ! i)"
      by (simp add: list_all2_nthD)
    moreover from "1.prems" mem have "distinct_keys (xs ! i)" "distinct_keys (ys ! i)"
      by auto
    ultimately have "sort_object (xs ! i) = sort_object (ys ! i)"
      using "1.IH" mem by blast
    with i show "map sort_object xs ! i = map sort_object ys ! i" by simp
  qed
  then show ?case by simp
next
  case (2 d e)
  let ?f = "\<lambda>(key, v). (key, sort_object v)"
  let ?A = "map ?f (sorted_items d)" and ?B = "map ?f (sorted_items e)"
  from "2.prems" have dd: "distinct (map fst d)" and de: "distinct (map fst e)"
    and keys: "set (map fst d) = set (map fst e)" by simp_all
  have step: "sort_object v = sort_object v'" if "(k, v) \<in> set d" "(k, v') \<in> set e" for k v v'
  proof -
    from "2.prems" that have "distinct_keys v" "distinct_keys v'" "same_map v v'" by auto
    with "2.IH" that show ?thesis by blast
  qed
  have sub1: "?f kv \<in> ?f ` set e" if "kv \<in> set d" for kv
  proof -
    obtain k v where kv: "kv = (k, v)" by (cases kv)
    with that keys have "k \<in> fst ` set e" by force
    then obtain v' where e: "(k, v') \<in> set e" by auto
    with that kv have "sort_object v = sort_object v'" by (simp add: step)
    with kv e show ?thesis by force
  qed
  have sub2: "?f kv \<in> ?f ` set d" if "kv \<in> set e" for kv
  proof -
    obtain k v' where kv: "kv = (k, v')" by (cases kv)
    with that keys have "k \<in> fst ` set d" by force
    then obtain v where d: "(k, v) \<in> set d" by auto
    with that kv have "sort_object v = sort_object v'" by (simp add: step)
    with kv d show ?thesis by force
  qed
  have sets: "set ?A = set ?B"
    using sub1 sub2 by (auto simp: set_sorted_items)
  have dA: "distinct (map fst ?A)" and dB: "distinct (map fst ?B)"
    using dd de by (simp_all only: map_fst_map_values distinct_sorted_items)
  have sA: "sorted (map fst ?A)" and sB: "sorted (map fst ?B)"
    by (simp_all only: map_fst_map_values sorted_sorted_items)
  from dA have "inj_on fst (set ?A)" by (simp only: distinct_map)
  with sets have inj: "inj_on fst (set ?A \<union> set ?B)" by simp
  have "?A = ?B"
    by (rule map_sorted_distinct_set_unique [OF inj sA dA sB dB sets])
  with dd de show ?case by (simp only: sort_object_dict)
qed simp_all

lemma keys_sorted_sort_object: "distinct_keys a \<Longrightarrow> keys_sorted (sort_object a)"
proof (induction a rule: sort_object.induct)
  case (3 d)
  from "3.prems" have dd: "distinct (map fst d)" by simp
  have vals: "keys_sorted (sort_object v)" if "(k, v) \<in> set (sorted_items d)" for k v
  proof -
    from that have "(k, v) \<in> set d" by (simp add: set_sorted_items)
    with "3.prems" have "distinct_keys v" by auto
    with "3.IH" that show ?thesis by blast
  qed
  have "sorted (map fst (map (\<lambda>(key, v). (key, sort_object v)) (sorted_items d)))"
    by (simp only: map_fst_map_values sorted_sorted_items)
  moreover have "\<forall>(k, v) \<in> set (map (\<lambda>(key, v). (key, sort_object v)) (sorted_items d)).
      keys_sorted v"
    using vals by auto
  ultimately show ?case
    by (simp only: sort_object_dict [OF dd] keys_sorted.simps)
qed auto

text \<open>
  C10. For every two input dictionaries that are equal as maps (the same keys bound to the
  same values at every nesting level, whatever the insertion order),
  \<open>to_deterministic_json\<close> produces the same string and \<open>get_compose_hash\<close> the same
  digest, because \<open>sort_object\<close> puts the keys of every dict in ascending order and so
  gives both the same value before serialization.
\<close>

theorem compose_hash_ignores_insertion_order:
  assumes "distinct_keys (JDict d)" and "distinct_keys (JDict e)"
    and "same_map (JDict d) (JDict e)"
  shows "keys_sorted (sort_object (JDict d))
       \<and> sort_object (JDict d) = sort_object (JDict e)
       \<and> to_deterministic_json L (JDict d) = to_deterministic_json L (JDict e)
       \<and> get_compose_hash L (JDict d) = get_compose_hash L (JDict e)"
proof -
  have "sort_object (JDict d) = sort_object (JDict e)"
    using assms by (rule sort_object_same_map)
  moreover have "keys_sorted (sort_object (JDict d))"
    using assms(1) by (rule keys_sorted_sort_object)
  ultimately show ?thesis
    by (simp add: to_deterministic_json_def get_compose_hash_def)
qed

theorem compose_hash_ignores_insertion_order_witness:
  \<open>distinct_keys (JDict [(''b'', JInt 1), (''a'', JDict [(''y'', JNull), (''x'', JBool True)])])
 \<and> distinct_keys (JDict [(''a'', JDict [(''x'', JBool True), (''y'', JNull)]), (''b'', JInt 1)])
 \<and> same_map (JDict [(''b'', JInt 1), (''a'', JDict [(''y'', JNull), (''x'', JBool True)])])
             (JDict [(''a'', JDict [(''x'', JBool True), (''y'', JNull)]), (''b'', JInt 1)])
 \<and> to_deterministic_json demo_lib
      (JDict [(''b'', JInt 1), (''a'', JDict [(''y'', JNull), (''x'', JBool True)])])
    = to_deterministic_json demo_lib
        (JDict [(''a'', JDict [(''x'', JBool True), (''y'', JNull)]), (''b'', JInt 1)])
 \<and> to_deterministic_json demo_lib
      (JDict [(''a'', JDict [(''x'', JBool True), (''y'', JNull)]), (''b'', JInt 1)])
    = ''{"a":{"x":true,"y":null},"b":1}''
 \<and> get_compose_hash demo_lib
      (JDict [(''b'', JInt 1), (''a'', JDict [(''y'', JNull), (''x'', JBool True)])])
    = get_compose_hash demo_lib
        (JDict [(''a'', JDict [(''x'', JBool True), (''y'', JNull)]), (''b'', JInt 1)])\<close>
proof -
  let ?d = "[(''b'', JInt 1), (''a'', JDict [(''y'', JNull), (''x'', JBool True)])]"
  let ?e = "[(''a'', JDict [(''x'', JBool True), (''y'', JNull)]), (''b'', JInt 1)]"
  have h1: "distinct_keys (JDict ?d)" by simp
  have h2: "distinct_keys (JDict ?e)" by simp
  have h3: "same_map (JDict ?d) (JDict ?e)" by auto
  have out: \<open>to_deterministic_json demo_lib (JDict ?e) = ''{"a":{"x":true,"y":null},"b":1}''\<close>
    by (simp add: to_deterministic_json_def sorted_items_def dict_of_items_def dict_update_def
        compact_format_def encode_basestring_def escape_char_def backslash_def
        str_int_def str_nat.simps digit_char_def)
  from compose_hash_ignores_insertion_order [OF h1 h2 h3, of demo_lib] h1 h2 h3 out
  show ?thesis by blast
qed

section \<open>Evaluation at concrete inputs\<close>

lemmas eval_dumps = default_format_def encode_basestring_def escape_char_def backslash_def
  str_int_def str_nat.simps digit_char_def

lemmas eval_serve = serve_line_def except_clauses_def handle_request_def try_then_def
  strip_def py_isspace_def demo_lib_def table_loads_def dict_get_default_def dict_get_def
  api_config_def

lemmas eval_build = add_device_info_def session_cookies_def try_then_def urlencode_def
  generate_headers_def generate_headers_try_def failing_signer_def echo_signer_def
  dict_get_def dict_get_default_def

lemmas eval_quote = quote_plus_def quote_plus_char_def always_safe_def utf8_bytes_def
  percent_byte_def hex_digit_upper_def str_int_def str_nat.simps digit_char_def
  dict_update_def demo_lib_def

lemmas eval_rest = rest_generate_headers_def initialize_generators_def rest_gorgon_def
  rest_argus_def rest_ladon_def request_timestamp_def gorgon_headers_dict_def argus_stub_def
  gorgon_failing_rest_signer_def unconstructible_rest_signer_def gorgon_fallback_def
  argus_placeholder_def ladon_placeholder_def

section \<open>Properties of the service loop\<close>

text \<open>\<open>readline\<close> takes the first of the lines of the stream and leaves the others.\<close>

lemma readline_input_lines:
  "s \<noteq> [] \<Longrightarrow> readline s = (line, rest) \<Longrightarrow> line \<noteq> [] \<and> input_lines s = line # input_lines rest"
proof (induction s arbitrary: line rest)
  case Nil
  then show ?case by simp
next
  case (Cons c cs)
  show ?case
  proof (cases "c = CHR 0x0A")
    case True
    with Cons.prems show ?thesis by auto
  next
    case False
    obtain l' r' where rl: "readline cs = (l', r')" by (cases "readline cs")
    with False Cons.prems have lr: "line = c # l'" "rest = r'" by auto
    show ?thesis
    proof (cases cs)
      case Nil
      with rl lr False show ?thesis by auto
    next
      case (Cons a as)
      then have "cs \<noteq> []" by simp
      from Cons.IH [OF this rl] have "input_lines cs = l' # input_lines r'" by simp
      with lr False show ?thesis by simp
    qed
  qed
qed

lemma concat_input_lines: "concat (input_lines s) = s"
  by (induction s) (auto split: list.splits)

text \<open>The loop from any state: it consumes the whole stream, and appends one output line and
  the log records of \<open>serve_line\<close> for each line, in order.\<close>

lemma run_loop_result:
  "run_loop L S st =
     \<lparr>stdin = [],
      stdout = stdout st @ map snd (served L S (iteration st) (input_lines (stdin st))),
      stderr = stderr st @ concat (map fst (served L S (iteration st) (input_lines (stdin st)))),
      iteration = iteration st + length (input_lines (stdin st))\<rparr>"
proof (induction L S st rule: run_loop.induct)
  case (1 L S st)
  obtain line rest where rl: "readline (stdin st) = (line, rest)" by (cases "readline (stdin st)")
  show ?case
  proof (cases "stdin st = []")
    case True
    with rl show ?thesis
      by (subst run_loop.simps) (simp add: served_def)
  next
    case False
    from readline_input_lines [OF False rl]
    have ne: "line \<noteq> []" and il: "input_lines (stdin st) = line # input_lines rest" by simp_all
    obtain log out where sl: "serve_line L S (iteration st) line = (log, out)"
      by (cases "serve_line L S (iteration st) line")
    let ?st' = "\<lparr>stdin = rest, stdout = stdout st @ [out], stderr = stderr st @ log,
                 iteration = Suc (iteration st)\<rparr>"
    have step: "run_loop L S st = run_loop L S ?st'"
      using rl ne sl by (subst run_loop.simps) simp
    have "run_loop L S ?st' =
       \<lparr>stdin = [],
        stdout = stdout ?st' @ map snd (served L S (iteration ?st') (input_lines (stdin ?st'))),
        stderr = stderr ?st' @ concat (map fst (served L S (iteration ?st') (input_lines (stdin ?st')))),
        iteration = iteration ?st' + length (input_lines (stdin ?st'))\<rparr>"
      using "1.IH" [OF rl [symmetric] ne sl [symmetric]] .
    with step il sl show ?thesis
      by (simp add: served_def)
  qed
qed

lemma stdout_run: "stdout (run L S input) = map snd (served L S 0 (input_lines input))"
  by (simp add: run_def run_loop_result)

lemma stdout_run_nth:
  "n < length (input_lines input) \<Longrightarrow>
   stdout (run L S input) ! n = snd (serve_line L S n (input_lines input ! n))"
  by (simp add: stdout_run served_def nth_enumerate_eq)

lemma length_stdout_run: "length (stdout (run L S input)) = length (input_lines input)"
  by (simp add: stdout_run served_def)

lemma serve_line_decode_error:
  "json_loads L (strip line) = Inl (JSONDecodeError m) \<Longrightarrow>
   snd (serve_line L S n line) =
     json_dumps L default_format
       (JDict [(''success'', JBool False), (''error'', JStr (''Invalid JSON: '' @ m))])"
  by (simp add: serve_line_def except_clauses_def)


text \<open>A printed response is a single line: \<^verbatim>\<open>json.dumps\<close> with \<^verbatim>\<open>ensure_ascii\<close> escapes every
  newline, provided the text of a float has none.\<close>

lemma digit_char_no_newline: "k < 10 \<Longrightarrow> digit_char k \<noteq> CHR 0x0A"
proof -
  assume "k < 10"
  then have "''0123456789'' ! k \<in> set ''0123456789''"
    by (intro nth_mem) simp
  then show ?thesis by (auto simp: digit_char_def)
qed

lemma str_nat_no_newline: "CHR 0x0A \<notin> set (str_nat n)"
proof (induction n rule: str_nat.induct)
  case (1 n)
  show ?case
  proof (cases "n < 10")
    case True
    then show ?thesis
      using digit_char_no_newline [of n] by (subst str_nat.simps) auto
  next
    case False
    with "1.IH" digit_char_no_newline [of "n mod 10"] show ?thesis
      by (subst str_nat.simps) auto
  qed
qed

lemma str_int_no_newline: "CHR 0x0A \<notin> set (str_int i)"
  by (simp add: str_int_def str_nat_no_newline)

lemma hex_digit_no_newline: "k < 16 \<Longrightarrow> hex_digit k \<noteq> CHR 0x0A"
proof -
  assume "k < 16"
  then have "''0123456789abcdef'' ! k \<in> set ''0123456789abcdef''"
    by (intro nth_mem) simp
  then show ?thesis by (auto simp: hex_digit_def)
qed

lemma escape_char_no_newline: "CHR 0x0A \<notin> set (escape_char True c)"
proof -
  have "(of_char c :: nat) div 16 < 16"
    by (simp add: less_mult_imp_div_less)
  then show ?thesis
    using hex_digit_no_newline [of "of_char c div 16"] hex_digit_no_newline [of "of_char c mod 16"]
    by (auto simp: escape_char_def u_escape_def backslash_def)
qed

lemma encode_basestring_no_newline: "CHR 0x0A \<notin> set (encode_basestring True s)"
  by (simp add: encode_basestring_def escape_char_no_newline)

lemma join_no_newline:
  "CHR 0x0A \<notin> set sep \<Longrightarrow> (\<forall>p \<in> set ps. CHR 0x0A \<notin> set p) \<Longrightarrow> CHR 0x0A \<notin> set (join sep ps)"
  by (induction sep ps rule: join.induct) auto

lemma json_dumps_no_newline:
  assumes "\<And>s m e. CHR 0x0A \<notin> set (float_repr L s m e)"
  shows "CHR 0x0A \<notin> set (json_dumps L default_format v)"
proof (induction v)
  case (JFloat f)
  then show ?case using assms by (cases f) (simp_all add: json_float_def)
next
  case (JList xs)
  then have "\<forall>p \<in> set (map (json_dumps L default_format) xs). CHR 0x0A \<notin> set p"
    by auto
  then have "CHR 0x0A \<notin> set (join '', '' (map (json_dumps L default_format) xs))"
    by (intro join_no_newline) simp_all
  then show ?case by (simp add: default_format_def)
next
  case (JDict d)
  have "\<forall>p \<in> set (map (\<lambda>(k, v). encode_basestring True k @ '': '' @ json_dumps L default_format v) d).
          CHR 0x0A \<notin> set p"
    using JDict by (fastforce simp: encode_basestring_no_newline)
  then have "CHR 0x0A \<notin> set (join '', ''
      (map (\<lambda>(k, v). encode_basestring True k @ '': '' @ json_dumps L default_format v) d))"
    by (intro join_no_newline) simp_all
  then show ?case by (simp add: default_format_def)
qed (simp_all add: str_int_no_newline encode_basestring_no_newline default_format_def)

lemma printed_line_no_newline:
  assumes "\<And>s m e. CHR 0x0A \<notin> set (float_repr L s m e)"
  shows "CHR 0x0A \<notin> set (snd (serve_line L S n line))"
  using json_dumps_no_newline [OF assms]
  by (simp add: serve_line_def except_clauses_def del: json_dumps.simps
      split: sum.splits prod.splits pyexn.splits)

text \<open>
  C1. For every input text, \<open>run\<close> returns (the loop is a total function); the lines of the
  input partition it; stdout holds exactly one line per input line, the n-th being the
  response to the n-th line, whether that line parsed, was handled or made the handler
  raise; and the loop stops only with the whole stream consumed. Each entry of stdout is
  one \<^verbatim>\<open>print\<close>, a single line by \<open>printed_line_no_newline\<close>. Assumed: the signing modules
  return or raise an \<^verbatim>\<open>Exception\<close>, and stdout accepts every write.
\<close>

theorem run_one_response_per_line:
  "stdout (run L S input) =
     map (\<lambda>(n, line). snd (serve_line L S n line)) (enumerate 0 (input_lines input))
   \<and> length (stdout (run L S input)) = length (input_lines input)
   \<and> concat (input_lines input) = input
   \<and> stdin (run L S input) = []
   \<and> iteration (run L S input) = length (input_lines input)"
  by (simp add: run_def run_loop_result served_def concat_input_lines case_prod_unfold)

theorem run_one_response_per_line_witness:
  \<open>stdout (run demo_lib echo_signer
      ''not json\<newline>{"action": "getApiConfig", "requestId": 1}\<newline>{"action": "bogus", "requestId": 7}'')
   = [''{"success": false, "error": "Invalid JSON: Expecting value: line 1 column 1 (char 0)"}'',
      ''{"success": true, "requestId": 1, "config": {"baseUrl": "https://api16-normal-c-useast1a.tiktokv.com", "userAgent": "okhttp/3.12.13", "endpoints": {"feed": "/aweme/v1/feed/", "recommended": "/aweme/v1/feed/"}}}'',
      ''{"success": false, "requestId": 7, "error": "Unknown action: bogus"}'']
   \<and> input_lines
      ''not json\<newline>{"action": "getApiConfig", "requestId": 1}\<newline>{"action": "bogus", "requestId": 7}''
   = [''not json\<newline>'', ''{"action": "getApiConfig", "requestId": 1}\<newline>'',
      ''{"action": "bogus", "requestId": 7}'']
   \<and> stdin (run demo_lib echo_signer
      ''not json\<newline>{"action": "getApiConfig", "requestId": 1}\<newline>{"action": "bogus", "requestId": 7}'')
   = []\<close>
  using run_one_response_per_line [of demo_lib echo_signer
      \<open>''not json\<newline>{"action": "getApiConfig", "requestId": 1}\<newline>{"action": "bogus", "requestId": 7}''\<close>]
  by (simp add: eval_serve eval_dumps)




text \<open>
  C3. For every input line that fails to parse as JSON, the loop prints a response with
  \<^verbatim>\<open>success\<close> false, the error \<^verbatim>\<open>Invalid JSON: \<close> followed by the parser's message, and no
  \<^verbatim>\<open>requestId\<close> field, and it goes on to serve every following line. At the witness a bad
  line followed by a \<^verbatim>\<open>getApiConfig\<close> line gives two responses, the second successful.
\<close>

theorem parse_failure_response:
  assumes "n < length (input_lines input)"
    and "json_loads L (strip (input_lines input ! n)) = Inl (JSONDecodeError m)"
  shows "stdout (run L S input) ! n =
           json_dumps L default_format
             (JDict [(''success'', JBool False), (''error'', JStr (''Invalid JSON: '' @ m))])
       \<and> dict_get [(''success'', JBool False), (''error'', JStr (''Invalid JSON: '' @ m))]
            ''requestId'' = None
       \<and> length (stdout (run L S input)) = length (input_lines input)
       \<and> (\<forall>k. n < k \<and> k < length (input_lines input) \<longrightarrow>
            stdout (run L S input) ! k = snd (serve_line L S k (input_lines input ! k)))"
  using assms
  by (simp add: stdout_run_nth length_stdout_run serve_line_decode_error dict_get_def)

theorem parse_failure_response_witness:
  \<open>(0::nat) < length (input_lines ''not json\<newline>{"action": "getApiConfig", "requestId": 1}\<newline>'')
   \<and> json_loads demo_lib
        (strip (input_lines ''not json\<newline>{"action": "getApiConfig", "requestId": 1}\<newline>'' ! 0))
      = Inl (JSONDecodeError ''Expecting value: line 1 column 1 (char 0)'')
   \<and> stdout (run demo_lib echo_signer
        ''not json\<newline>{"action": "getApiConfig", "requestId": 1}\<newline>'')
      = [''{"success": false, "error": "Invalid JSON: Expecting value: line 1 column 1 (char 0)"}'',
         ''{"success": true, "requestId": 1, "config": {"baseUrl": "https://api16-normal-c-useast1a.tiktokv.com", "userAgent": "okhttp/3.12.13", "endpoints": {"feed": "/aweme/v1/feed/", "recommended": "/aweme/v1/feed/"}}}'']\<close>
proof -
  let ?input = \<open>''not json\<newline>{"action": "getApiConfig", "requestId": 1}\<newline>''\<close>
  have lines: \<open>input_lines ?input
      = [''not json\<newline>'', ''{"action": "getApiConfig", "requestId": 1}\<newline>'']\<close>
    by simp
  have h1: "(0::nat) < length (input_lines ?input)"
    by (simp only: lines) simp
  have h2: "json_loads demo_lib (strip (input_lines ?input ! 0))
      = Inl (JSONDecodeError ''Expecting value: line 1 column 1 (char 0)'')"
    by (simp only: lines) (simp add: eval_serve)
  have out: \<open>stdout (run demo_lib echo_signer ?input)
      = [''{"success": false, "error": "Invalid JSON: Expecting value: line 1 column 1 (char 0)"}'',
         ''{"success": true, "requestId": 1, "config": {"baseUrl": "https://api16-normal-c-useast1a.tiktokv.com", "userAgent": "okhttp/3.12.13", "endpoints": {"feed": "/aweme/v1/feed/", "recommended": "/aweme/v1/feed/"}}}'']\<close>
    by (simp only: stdout_run lines) (simp add: served_def eval_serve eval_dumps)
  from parse_failure_response [OF h1 h2, of echo_signer] h1 h2 out
  show ?thesis by blast
qed

text \<open>
  C8. For every request object whose \<^verbatim>\<open>action\<close> is none of the four known names, the router
  returns \<^verbatim>\<open>{success: false, requestId, error: "Unknown action: <name>"}\<close> with the request's
  own \<^verbatim>\<open>requestId\<close> (\<^verbatim>\<open>None\<close> when it has none) and raises nothing. At the witness, action
  \<^verbatim>\<open>bogus\<close> with \<^verbatim>\<open>requestId\<close> 7 gives exactly the response of the specification.
\<close>

theorem unknown_action_response:
  assumes "action = dict_get_default request ''action'' JNull"
    and "action \<noteq> JStr ''getApiConfig''" and "action \<noteq> JStr ''generateDeviceAuth''"
    and "action \<noteq> JStr ''buildAuthenticatedParams''" and "action \<noteq> JStr ''generateHeaders''"
  shows "handle_request L S (JDict request) now token =
           ([], Inr (JDict [(''success'', JBool False),
                            (''requestId'', dict_get_default request ''requestId'' JNull),
                            (''error'', JStr (''Unknown action: '' @ py_str L action))]))"
  using assms by (simp add: handle_request_def try_then_def)

theorem unknown_action_response_witness:
  "handle_request demo_lib echo_signer (JDict [(''action'', JStr ''bogus''), (''requestId'', JInt 7)])
     1700000000 ''00''
   = ([], Inr (JDict [(''success'', JBool False), (''requestId'', JInt 7),
                      (''error'', JStr ''Unknown action: bogus'')]))"
  using unknown_action_response [of "JStr ''bogus''"
      "[(''action'', JStr ''bogus''), (''requestId'', JInt 7)]" demo_lib echo_signer 1700000000 "''00''"]
  by (simp add: dict_get_default_def dict_get_def)

section \<open>Properties of the parameter assembler\<close>

lemma dict_get_dict_set:
  "dict_get (dict_set k v d) k' = (if k' = k then Some v else dict_get d k')"
  by (induction d) (auto simp: dict_get_def)

text \<open>\<^verbatim>\<open>d.update(items)\<close>: for each key the last item with it wins over \<open>d\<close>.\<close>

lemma dict_get_dict_update:
  "dict_get (dict_update d items) k =
     (case map_of (rev items) k of None \<Rightarrow> dict_get d k | Some v \<Rightarrow> Some v)"
proof (induction items arbitrary: d)
  case Nil
  then show ?case by (simp add: dict_update_def)
next
  case (Cons kv items)
  obtain k' v' where kv: "kv = (k', v')" by (cases kv)
  have "dict_update d (kv # items) = dict_update (dict_set k' v' d) items"
    by (simp add: dict_update_def kv)
  with Cons.IH [of "dict_set k' v' d"] kv show ?case
    by (auto simp: dict_get_dict_set map_add_def split: option.splits)
qed

lemma str_in_dict: "str_in key (JDict d) = Inr (dict_get d key \<noteq> None)"
  by (simp add: dict_get_def map_of_eq_None_iff)

lemma add_device_info_tokens:
  "dict_get sd ''tokens'' = Some (JDict tokens) \<Longrightarrow>
   add_device_info params (JDict sd) = Inr (with_device_ids tokens params)"
  by (auto simp: add_device_info_def with_device_ids_def try_then_def str_in_dict
      simp del: str_in.simps split: option.splits)

lemma with_device_ids_lookup:
  "(dict_get tokens ''device_id'' = Some v \<longrightarrow>
      dict_get (with_device_ids tokens params) ''device_id'' = Some v)
   \<and> (dict_get tokens ''install_id'' = Some w \<longrightarrow>
      dict_get (with_device_ids tokens params) ''iid'' = Some w)"
  by (auto simp: with_device_ids_def dict_get_dict_set Let_def split: option.splits)

lemma cookie_items_pairs:
  "map cookie_fields cs = map Some pairs \<Longrightarrow>
   cookie_items L cs = Inr (map (\<lambda>(n, v). py_str L n @ ''='' @ py_str L v) pairs)"
proof (induction cs arbitrary: pairs)
  case Nil
  then show ?case by simp
next
  case (Cons c cs)
  then obtain p ps where pairs: "pairs = p # ps" and c: "cookie_fields c = Some p"
    and rest: "map cookie_fields cs = map Some ps"
    by (cases pairs) auto
  obtain n v where p: "p = (n, v)" by (cases p)
  from c p have "cookie_item L c = Inr (py_str L n @ ''='' @ py_str L v)"
    by (auto simp: cookie_fields_def cookie_item_def try_then_def split: json.splits option.splits)
  with Cons.IH [OF rest] pairs p show ?case
    by (simp add: try_then_def)
qed

text \<open>Once the copy, the device identifiers and the cookie string are there, the assembler is
  one call of \<open>generate_headers\<close> on the query string of the current parameter set.\<close>

lemma build_authenticated_params_signing:
  assumes "dict_copy base_params = Inr params0"
    and "add_device_info params0 session_data = Inr params"
    and "session_cookies L session_data = Inr cookies"
  shows "build_authenticated_params L S base_params session_data ts stub =
     (case generate_headers L S (JStr (urlencode L params)) (JStr cookies) (JStr stub) (JInt ts) of
        (log, Inl e) \<Rightarrow>
          (log @ [(ERROR, ''buildAuthenticatedParams failed: '' @ exn_str e)], Inl e)
      | (log, Inr headers) \<Rightarrow> (log, Inr (dict_update params headers)))"
  using assms
  by (simp add: build_authenticated_params_def build_authenticated_params_try_def
      split: prod.splits sum.splits)

lemma generate_headers_try_keys:
  "generate_headers_try L S params cookies stub ts = Inr headers \<Longrightarrow>
   map fst headers = [''X-Gorgon'', ''X-Khronos'', ''X-Argus'', ''X-Ladon'']"
  by (auto simp: generate_headers_try_def try_then_def Let_def split: sum.splits)

text \<open>A signing primitive that raises makes \<open>generate_headers\<close> raise the same exception.\<close>

lemma signing_primitive_failure:
  assumes "headers_dict = JDict (if truthy cookies then [(''cookie'', cookies)] else [])"
    and "gorgon_get_value S params stub headers_dict ts = Inl e
       \<or> (gorgon_get_value S params stub headers_dict ts = Inr g
          \<and> argus_get_value S params cookies ts = Inl e)
       \<or> (gorgon_get_value S params stub headers_dict ts = Inr g
          \<and> argus_get_value S params cookies ts = Inr a
          \<and> ladon_get_value S params = Inl e)"
  shows "generate_headers_try L S params cookies stub ts = Inl e"
  using assms by (auto simp: generate_headers_try_def try_then_def)

lemma dict_update_headers_other:
  "map fst headers = [''X-Gorgon'', ''X-Khronos'', ''X-Argus'', ''X-Ladon''] \<Longrightarrow>
   k \<notin> set [''X-Gorgon'', ''X-Khronos'', ''X-Argus'', ''X-Ladon''] \<Longrightarrow>
   dict_get (dict_update params headers) k = dict_get params k"
proof -
  assume keys: "map fst headers = [''X-Gorgon'', ''X-Khronos'', ''X-Argus'', ''X-Ladon'']"
    and k: "k \<notin> set [''X-Gorgon'', ''X-Khronos'', ''X-Argus'', ''X-Ladon'']"
  from keys k have "k \<notin> fst ` set (rev headers)"
    by (metis image_set set_rev)
  then have "map_of (rev headers) k = None"
    by (simp add: map_of_eq_None_iff)
  then show ?thesis by (simp add: dict_get_dict_update)
qed

lemma dict_update_headers_win:
  assumes "distinct (map fst headers)" and "name \<in> set (map fst headers)"
  shows "dict_get (dict_update params headers) name = dict_get headers name"
proof -
  from assms(2) obtain v where v: "(name, v) \<in> set headers" by auto
  from assms(1) have "distinct (map fst (rev headers))" by (simp add: rev_map [symmetric])
  with v have "map_of (rev headers) name = Some v" by simp
  moreover from assms(1) v have "map_of headers name = Some v" by simp
  then have "dict_get headers name = Some v" by (simp add: dict_get_def)
  ultimately show ?thesis by (simp add: dict_get_dict_update)
qed

text \<open>
  C4, as amended. Whenever the signing adapter (\<open>generate_headers\<close>) raises during
  \<open>build_authenticated_params\<close>, the caller gets that same exception, whose message is the
  cause alone; the text \<^verbatim>\<open>buildAuthenticatedParams failed: <cause>\<close> is written to the log by
  the \<^verbatim>\<open>except\<close> clause, after the adapter's own log record, and no placeholder value is
  returned.
\<close>

theorem signing_failure_propagates:
  assumes "dict_copy base_params = Inr params0"
    and "add_device_info params0 session_data = Inr params"
    and "session_cookies L session_data = Inr cookies"
    and "generate_headers_try L S (JStr (urlencode L params)) (JStr cookies) (JStr stub) (JInt ts)
           = Inl e"
  shows "build_authenticated_params L S base_params session_data ts stub =
           ([(ERROR, ''Header generation failed: '' @ exn_str e),
             (ERROR, ''buildAuthenticatedParams failed: '' @ exn_str e)], Inl e)"
  using assms(4)
  by (simp add: build_authenticated_params_signing [OF assms(1-3)] generate_headers_def)

theorem signing_failure_propagates_witness:
  "dict_copy (JDict []) = Inr []
   \<and> add_device_info [] (JDict []) = Inr []
   \<and> session_cookies demo_lib (JDict []) = Inr ''''
   \<and> generate_headers_try demo_lib failing_signer (JStr (urlencode demo_lib [])) (JStr '''')
        (JStr ''00'') (JInt 1700000000) = Inl (BackendError ''boom'')
   \<and> build_authenticated_params demo_lib failing_signer (JDict []) (JDict []) 1700000000 ''00''
      = ([(ERROR, ''Header generation failed: boom''),
          (ERROR, ''buildAuthenticatedParams failed: boom'')], Inl (BackendError ''boom''))"
proof -
  have h1: "dict_copy (JDict []) = Inr []" by simp
  have h2: "add_device_info [] (JDict []) = Inr []" by (simp add: eval_build)
  have h3: "session_cookies demo_lib (JDict []) = Inr ''''" by (simp add: eval_build)
  have h4: "generate_headers_try demo_lib failing_signer (JStr (urlencode demo_lib [])) (JStr '''')
        (JStr ''00'') (JInt 1700000000) = Inl (BackendError ''boom'')"
    by (simp add: eval_build)
  from signing_failure_propagates [OF h1 h2 h3 h4] h1 h2 h3 h4
  show ?thesis by simp
qed

text \<open>
  C4 as stated fails: with a signing module that raises \<^verbatim>\<open>boom\<close>, the exception that
  reaches the caller has the message \<^verbatim>\<open>boom\<close>, not
  \<^verbatim>\<open>buildAuthenticatedParams failed: boom\<close>, and so has the response the loop prints.
\<close>

theorem named_error_counterexample:
  \<open>snd (build_authenticated_params demo_lib failing_signer (JDict []) (JDict []) 1700000000 ''00'')
     = Inl (BackendError ''boom'')
   \<and> exn_str (BackendError ''boom'') = ''boom''
   \<and> exn_str (BackendError ''boom'') \<noteq> ''buildAuthenticatedParams failed: boom''
   \<and> json_loads demo_lib (strip ''{"action": "buildAuthenticatedParams", "requestId": 9}\<newline>'')
     = Inr (JDict [(''action'', JStr ''buildAuthenticatedParams''), (''requestId'', JInt 9)])
   \<and> stdout (run demo_lib failing_signer
        ''{"action": "buildAuthenticatedParams", "requestId": 9}\<newline>'')
     = [''{"success": false, "error": "boom"}'']\<close>
  by (simp add: stdout_run served_def eval_serve eval_dumps
      build_authenticated_params_def build_authenticated_params_try_def eval_build)

text \<open>
  C5. The cookie string of \<open>build_authenticated_params\<close> (lines 96-101): for a list of
  \<^verbatim>\<open>{name, value}\<close> pairs it is the pairs written \<^verbatim>\<open>name=value\<close> and joined by \<^verbatim>\<open>"; "\<close> in list
  order; for a string it is the string itself; without a \<^verbatim>\<open>cookies\<close> field it is empty.
  At the witness the two pairs a/1 and b/2 give exactly \<^verbatim>\<open>a=1; b=2\<close>.
\<close>

theorem cookie_string_derivation:
  "(dict_get sd ''cookies'' = Some (JList cs) \<and> map cookie_fields cs = map Some pairs \<longrightarrow>
      session_cookies L (JDict sd)
        = Inr (join ''; '' (map (\<lambda>(n, v). py_str L n @ ''='' @ py_str L v) pairs)))
   \<and> (dict_get sd ''cookies'' = Some (JStr s) \<longrightarrow> session_cookies L (JDict sd) = Inr s)
   \<and> (dict_get sd ''cookies'' = None \<longrightarrow> session_cookies L (JDict sd) = Inr '''')"
proof (intro conjI impI)
  assume a: "dict_get sd ''cookies'' = Some (JList cs) \<and> map cookie_fields cs = map Some pairs"
  show "session_cookies L (JDict sd)
        = Inr (join ''; '' (map (\<lambda>(n, v). py_str L n @ ''='' @ py_str L v) pairs))"
  proof (cases cs)
    case Nil
    with a show ?thesis
      by (simp add: session_cookies_def try_then_def str_in_dict del: str_in.simps)
  next
    case (Cons c cs')
    with a cookie_items_pairs [of cs pairs L] show ?thesis
      by (simp add: session_cookies_def try_then_def str_in_dict del: str_in.simps)
  qed
next
  assume "dict_get sd ''cookies'' = Some (JStr s)"
  then show "session_cookies L (JDict sd) = Inr s"
    by (simp add: session_cookies_def try_then_def str_in_dict del: str_in.simps)
next
  assume "dict_get sd ''cookies'' = None"
  then show "session_cookies L (JDict sd) = Inr ''''"
    by (simp add: session_cookies_def try_then_def str_in_dict del: str_in.simps)
qed

theorem cookie_string_derivation_witness:
  \<open>session_cookies demo_lib
      (JDict [(''cookies'', JList [JDict [(''name'', JStr ''a''), (''value'', JStr ''1'')],
                                   JDict [(''name'', JStr ''b''), (''value'', JStr ''2'')]])])
     = Inr ''a=1; b=2''
   \<and> session_cookies demo_lib (JDict [(''cookies'', JStr ''a=1; b=2'')]) = Inr ''a=1; b=2''
   \<and> session_cookies demo_lib (JDict [(''tokens'', JDict [])]) = Inr ''''\<close>
proof -
  let ?cs = "[JDict [(''name'', JStr ''a''), (''value'', JStr ''1'')],
              JDict [(''name'', JStr ''b''), (''value'', JStr ''2'')]]"
  let ?pairs = "[(JStr ''a'', JStr ''1''), (JStr ''b'', JStr ''2'')]"
  have h1: "dict_get [(''cookies'', JList ?cs)] ''cookies'' = Some (JList ?cs)
            \<and> map cookie_fields ?cs = map Some ?pairs"
    by (simp add: dict_get_def cookie_fields_def)
  have h2: "dict_get [(''cookies'', JStr ''a=1; b=2'')] ''cookies'' = Some (JStr ''a=1; b=2'')"
    by (simp add: dict_get_def)
  have h3: "dict_get [(''tokens'', JDict [])] ''cookies'' = None"
    by (simp add: dict_get_def)
  from cookie_string_derivation [of "[(''cookies'', JList ?cs)]" ?cs ?pairs demo_lib] h1
  have c1: "session_cookies demo_lib (JDict [(''cookies'', JList ?cs)]) = Inr ''a=1; b=2''"
    by simp
  from cookie_string_derivation [of "[(''cookies'', JStr ''a=1; b=2'')]" _ _ demo_lib "''a=1; b=2''"] h2
  have c2: "session_cookies demo_lib (JDict [(''cookies'', JStr ''a=1; b=2'')]) = Inr ''a=1; b=2''"
    by blast
  from cookie_string_derivation [of "[(''tokens'', JDict [])]" _ _ demo_lib] h3
  have c3: "session_cookies demo_lib (JDict [(''tokens'', JDict [])]) = Inr ''''"
    by blast
  from c1 c2 c3 show ?thesis by blast
qed

text \<open>
  C6. When the session has \<^verbatim>\<open>tokens\<close>, \<open>build_authenticated_params\<close> puts \<^verbatim>\<open>tokens.device_id\<close>
  under key \<^verbatim>\<open>device_id\<close> and \<^verbatim>\<open>tokens.install_id\<close> under key \<^verbatim>\<open>iid\<close>, each if and only if it is
  present; the query string handed to the signing adapter is \<open>urlencode\<close> of the parameter
  set after these injections; and both identifiers are in the mapping returned on success.
\<close>

theorem device_ids_injected_before_signing:
  assumes "dict_get sd ''tokens'' = Some (JDict tokens)"
    and "session_cookies L (JDict sd) = Inr cookies"
  shows "add_device_info base (JDict sd) = Inr (with_device_ids tokens base)
       \<and> (\<forall>v. dict_get tokens ''device_id'' = Some v \<longrightarrow>
              dict_get (with_device_ids tokens base) ''device_id'' = Some v)
       \<and> (\<forall>w. dict_get tokens ''install_id'' = Some w \<longrightarrow>
              dict_get (with_device_ids tokens base) ''iid'' = Some w)
       \<and> build_authenticated_params L S (JDict base) (JDict sd) ts stub =
           (case generate_headers L S (JStr (urlencode L (with_device_ids tokens base)))
                   (JStr cookies) (JStr stub) (JInt ts) of
              (log, Inl e) \<Rightarrow>
                (log @ [(ERROR, ''buildAuthenticatedParams failed: '' @ exn_str e)], Inl e)
            | (log, Inr headers) \<Rightarrow>
                (log, Inr (dict_update (with_device_ids tokens base) headers)))
       \<and> (\<forall>log result. build_authenticated_params L S (JDict base) (JDict sd) ts stub
              = (log, Inr result) \<longrightarrow>
            (\<forall>v. dict_get tokens ''device_id'' = Some v \<longrightarrow> dict_get result ''device_id'' = Some v)
          \<and> (\<forall>w. dict_get tokens ''install_id'' = Some w \<longrightarrow> dict_get result ''iid'' = Some w))"
proof -
  let ?p = "with_device_ids tokens base"
  have inj: "add_device_info base (JDict sd) = Inr ?p"
    using assms(1) by (rule add_device_info_tokens)
  have copy: "dict_copy (JDict base) = Inr base" by simp
  note eq = build_authenticated_params_signing [OF copy inj assms(2), of S ts stub]
  have final: "(\<forall>v. dict_get tokens ''device_id'' = Some v \<longrightarrow> dict_get result ''device_id'' = Some v)
     \<and> (\<forall>w. dict_get tokens ''install_id'' = Some w \<longrightarrow> dict_get result ''iid'' = Some w)"
    if ok: "build_authenticated_params L S (JDict base) (JDict sd) ts stub = (log, Inr result)"
    for log result
  proof -
    from ok eq obtain headers where
      h: "generate_headers_try L S (JStr (urlencode L ?p)) (JStr cookies) (JStr stub) (JInt ts)
            = Inr headers"
      and r: "result = dict_update ?p headers"
      by (auto simp: generate_headers_def split: sum.splits)
    from h have keys: "map fst headers = [''X-Gorgon'', ''X-Khronos'', ''X-Argus'', ''X-Ladon'']"
      by (rule generate_headers_try_keys)
    have "dict_get result ''device_id'' = dict_get ?p ''device_id''"
      unfolding r by (rule dict_update_headers_other [OF keys]) simp
    moreover have "dict_get result ''iid'' = dict_get ?p ''iid''"
      unfolding r by (rule dict_update_headers_other [OF keys]) simp
    ultimately show ?thesis
      using with_device_ids_lookup [of tokens _ base] by auto
  qed
  from inj eq final with_device_ids_lookup [of tokens _ base] show ?thesis
    by (simp only:) blast
qed

theorem device_ids_injected_before_signing_witness:
  "dict_get [(''tokens'', JDict [(''device_id'', JStr ''d1''), (''install_id'', JStr ''i1'')])]
      ''tokens''
     = Some (JDict [(''device_id'', JStr ''d1''), (''install_id'', JStr ''i1'')])
   \<and> session_cookies demo_lib
        (JDict [(''tokens'', JDict [(''device_id'', JStr ''d1''), (''install_id'', JStr ''i1'')])])
     = Inr ''''
   \<and> build_authenticated_params demo_lib echo_signer
        (JDict [(''aid'', JInt 1233), (''q'', JStr ''a b'')])
        (JDict [(''tokens'', JDict [(''device_id'', JStr ''d1''), (''install_id'', JStr ''i1'')])])
        1700000000 ''00''
     = ([], Inr [(''aid'', JInt 1233), (''q'', JStr ''a b''),
                 (''device_id'', JStr ''d1''), (''iid'', JStr ''i1''),
                 (''X-Gorgon'', JStr ''8404''), (''X-Khronos'', JStr ''1700000000''),
                 (''X-Argus'', JStr ''''),
                 (''X-Ladon'', JStr ''aid=1233&q=a+b&device_id=d1&iid=i1'')])"
proof -
  let ?tokens = "[(''device_id'', JStr ''d1''), (''install_id'', JStr ''i1'')]"
  let ?sd = "[(''tokens'', JDict ?tokens)]"
  have h1: "dict_get ?sd ''tokens'' = Some (JDict ?tokens)"
    by (simp add: dict_get_def)
  have h2: "session_cookies demo_lib (JDict ?sd) = Inr ''''"
    by (simp add: eval_build)
  from device_ids_injected_before_signing [OF h1 h2,
      of "[(''aid'', JInt 1233), (''q'', JStr ''a b'')]" echo_signer 1700000000 "''00''"]
  have "build_authenticated_params demo_lib echo_signer
        (JDict [(''aid'', JInt 1233), (''q'', JStr ''a b'')]) (JDict ?sd) 1700000000 ''00''
     = ([], Inr [(''aid'', JInt 1233), (''q'', JStr ''a b''),
                 (''device_id'', JStr ''d1''), (''iid'', JStr ''i1''),
                 (''X-Gorgon'', JStr ''8404''), (''X-Khronos'', JStr ''1700000000''),
                 (''X-Argus'', JStr ''''),
                 (''X-Ladon'', JStr ''aid=1233&q=a+b&device_id=d1&iid=i1'')])"
    by (simp add: with_device_ids_def eval_build eval_quote)
  with h1 h2 show ?thesis by blast
qed

text \<open>
  C7. Whenever \<open>build_authenticated_params\<close> returns a mapping, the signing adapter returned
  a header mapping with the four header names, and for each of these names the returned
  mapping holds the header's value, whatever the base parameters had under that name. At
  the witness the base parameters bind \<^verbatim>\<open>X-Ladon\<close> to \<^verbatim>\<open>old\<close> and the result binds it to the
  computed header.
\<close>

theorem headers_take_precedence:
  assumes "build_authenticated_params L S base_params session_data ts stub = (log, Inr result)"
  shows "\<exists>query cookies headers.
           generate_headers_try L S (JStr query) (JStr cookies) (JStr stub) (JInt ts) = Inr headers
         \<and> map fst headers = [''X-Gorgon'', ''X-Khronos'', ''X-Argus'', ''X-Ladon'']
         \<and> (\<forall>name \<in> set (map fst headers). dict_get result name = dict_get headers name)"
proof -
  from assms obtain params0 params cookies headers where
      "dict_copy base_params = Inr params0"
      and "add_device_info params0 session_data = Inr params"
      and "session_cookies L session_data = Inr cookies"
      and h: "generate_headers_try L S (JStr (urlencode L params)) (JStr cookies) (JStr stub) (JInt ts)
            = Inr headers"
      and r: "result = dict_update params headers"
    by (auto simp: build_authenticated_params_def build_authenticated_params_try_def
        generate_headers_def Let_def split: sum.splits prod.splits)
  from h have keys: "map fst headers = [''X-Gorgon'', ''X-Khronos'', ''X-Argus'', ''X-Ladon'']"
    by (rule generate_headers_try_keys)
  then have "distinct (map fst headers)" by simp
  then have "\<forall>name \<in> set (map fst headers). dict_get result name = dict_get headers name"
    unfolding r by (blast intro: dict_update_headers_win)
  with h keys have
    "generate_headers_try L S (JStr (urlencode L params)) (JStr cookies) (JStr stub) (JInt ts)
       = Inr headers
     \<and> map fst headers = [''X-Gorgon'', ''X-Khronos'', ''X-Argus'', ''X-Ladon'']
     \<and> (\<forall>name \<in> set (map fst headers). dict_get result name = dict_get headers name)"
    by simp
  then show ?thesis by (intro exI)
qed

theorem headers_take_precedence_witness:
  "build_authenticated_params demo_lib echo_signer
      (JDict [(''X-Ladon'', JStr ''old''), (''aid'', JInt 1233)]) (JDict []) 1700000000 ''00''
     = ([], Inr [(''X-Ladon'', JStr ''X-Ladon=old&aid=1233''), (''aid'', JInt 1233),
                 (''X-Gorgon'', JStr ''8404''), (''X-Khronos'', JStr ''1700000000''),
                 (''X-Argus'', JStr '''')])
   \<and> (\<exists>query cookies headers.
         generate_headers_try demo_lib echo_signer (JStr query) (JStr cookies) (JStr ''00'')
           (JInt 1700000000) = Inr headers
       \<and> map fst headers = [''X-Gorgon'', ''X-Khronos'', ''X-Argus'', ''X-Ladon'']
       \<and> (\<forall>name \<in> set (map fst headers).
             dict_get [(''X-Ladon'', JStr ''X-Ladon=old&aid=1233''), (''aid'', JInt 1233),
                       (''X-Gorgon'', JStr ''8404''), (''X-Khronos'', JStr ''1700000000''),
                       (''X-Argus'', JStr '''')] name
             = dict_get headers name))"
proof -
  have h: "build_authenticated_params demo_lib echo_signer
      (JDict [(''X-Ladon'', JStr ''old''), (''aid'', JInt 1233)]) (JDict []) 1700000000 ''00''
     = ([], Inr [(''X-Ladon'', JStr ''X-Ladon=old&aid=1233''), (''aid'', JInt 1233),
                 (''X-Gorgon'', JStr ''8404''), (''X-Khronos'', JStr ''1700000000''),
                 (''X-Argus'', JStr '''')])"
    by (simp add: build_authenticated_params_def build_authenticated_params_try_def
        eval_build eval_quote)
  from h headers_take_precedence [OF h] show ?thesis by (rule conjI)
qed

section \<open>Properties of the REST endpoint\<close>

text \<open>A constructor that raises is outside the three inner try blocks: the request fails.\<close>

lemma constructor_failure_is_500:
  "initialize_generators R = Some e \<Longrightarrow>
   rest_generate_headers L R request now = Inl (HTTPException 500 (exn_str e))"
  by (simp add: rest_generate_headers_def)

text \<open>
  C9, as amended. For every request for which the three generator constructors return, the
  endpoint answers with \<^verbatim>\<open>success\<close> true and all four header keys, and each header is decided
  by its own signing computation alone: a computation that raises has its value replaced by
  its placeholder (\<^verbatim>\<open>X-Gorgon\<close> by the fallback constant, with \<^verbatim>\<open>X-Khronos\<close> the request's
  timestamp), and one that returns contributes the value it returned (the entries of the
  mapping \<^verbatim>\<open>calculate\<close> returned, or \<^verbatim>\<open>str\<close> of another result; the \<^verbatim>\<open>get_sign\<close> and \<^verbatim>\<open>encrypt\<close>
  results, the placeholder standing in for a falsy one), whatever the other two do. The
  timestamp, the headers handed to \<^verbatim>\<open>calculate\<close> and the stub handed to \<^verbatim>\<open>get_sign\<close> are
  written out from lines 86, 98-102 and 127.
\<close>

theorem rest_partial_degradation:
  assumes "new_XGorgon R = None" and "new_XArgus R = None" and "new_XLadon R = None"
  shows
    "let ts = (case req_timestamp request of None \<Rightarrow> now | Some t \<Rightarrow> if t = 0 then now else t);
         headers_dict =
           (if req_cookies request = [] then [] else [(''cookie'', JStr (req_cookies request))])
           @ (case req_stub request of
                None \<Rightarrow> []
              | Some s \<Rightarrow> if s = [] then [] else [(''x-ss-stub'', JStr s)]);
         stub = (case req_stub request of None \<Rightarrow> [] | Some s \<Rightarrow> s);
         gorgon = gorgon_calculate R (req_params request) headers_dict;
         argus = argus_get_sign R (req_params request) stub ts;
         ladon = ladon_encrypt R ts
     in \<exists>x_gorgon x_khronos x_argus x_ladon.
          rest_generate_headers L R request now =
            Inr (JDict [(''success'', JBool True),
                        (''headers'', JDict [(''X-Gorgon'', x_gorgon),
                                             (''X-Khronos'', x_khronos),
                                             (''X-Argus'', x_argus),
                                             (''X-Ladon'', x_ladon)]),
                        (''timestamp'', JInt ts)])
        \<and> (case gorgon of
              Inl e \<Rightarrow>
                x_gorgon = JStr ''0404000000000000000000000000000000000000''
                \<and> x_khronos = JStr (str_int ts)
            | Inr (JDict d) \<Rightarrow>
                x_gorgon = (case dict_get d ''X-Gorgon'' of
                              None \<Rightarrow> JStr ''0404000000000000000000000000000000000000''
                            | Some v \<Rightarrow> v)
                \<and> x_khronos = (case dict_get d ''X-Khronos'' of
                                 None \<Rightarrow> JStr (str_int ts)
                               | Some v \<Rightarrow> v)
            | Inr v \<Rightarrow> x_gorgon = JStr (py_str L v) \<and> x_khronos = JStr (str_int ts))
        \<and> (case argus of
              Inl e \<Rightarrow> x_argus = JStr ''placeholder_argus_value''
            | Inr v \<Rightarrow> x_argus = (if truthy v then v else JStr ''placeholder_argus_value''))
        \<and> (case ladon of
              Inl e \<Rightarrow> x_ladon = JStr ''placeholder_ladon_value''
            | Inr v \<Rightarrow> x_ladon = (if truthy v then v else JStr ''placeholder_ladon_value''))"
proof -
  let ?ts = "case req_timestamp request of None \<Rightarrow> now | Some t \<Rightarrow> if t = 0 then now else t"
  let ?hd = "(if req_cookies request = [] then [] else [(''cookie'', JStr (req_cookies request))])
        @ (case req_stub request of
             None \<Rightarrow> []
           | Some s \<Rightarrow> if s = [] then [] else [(''x-ss-stub'', JStr s)])"
  let ?stub = "case req_stub request of None \<Rightarrow> [] | Some s \<Rightarrow> s"
  have init: "initialize_generators R = None"
    using assms by (simp add: initialize_generators_def)
  have ts: "request_timestamp request now = ?ts"
    by (simp add: request_timestamp_def split: option.splits)
  have hd: "gorgon_headers_dict request = ?hd"
    by (simp add: gorgon_headers_dict_def split: option.splits)
  have stub: "argus_stub request = ?stub"
    by (simp add: argus_stub_def)
  have res: "rest_generate_headers L R request now =
      Inr (JDict [(''success'', JBool True),
                  (''headers'', JDict [(''X-Gorgon'', fst (rest_gorgon L R request ?ts)),
                                       (''X-Khronos'', snd (rest_gorgon L R request ?ts)),
                                       (''X-Argus'', rest_argus R request ?ts),
                                       (''X-Ladon'', rest_ladon R ?ts)]),
                  (''timestamp'', JInt ?ts)])"
    by (simp add: rest_generate_headers_def init ts Let_def split: prod.splits)
  have gorgon: "case gorgon_calculate R (req_params request) ?hd of
        Inl e \<Rightarrow>
          fst (rest_gorgon L R request ?ts) = JStr ''0404000000000000000000000000000000000000''
          \<and> snd (rest_gorgon L R request ?ts) = JStr (str_int ?ts)
      | Inr (JDict d) \<Rightarrow>
          fst (rest_gorgon L R request ?ts)
            = (case dict_get d ''X-Gorgon'' of
                 None \<Rightarrow> JStr ''0404000000000000000000000000000000000000''
               | Some v \<Rightarrow> v)
          \<and> snd (rest_gorgon L R request ?ts)
            = (case dict_get d ''X-Khronos'' of None \<Rightarrow> JStr (str_int ?ts) | Some v \<Rightarrow> v)
      | Inr v \<Rightarrow>
          fst (rest_gorgon L R request ?ts) = JStr (py_str L v)
          \<and> snd (rest_gorgon L R request ?ts) = JStr (str_int ?ts)"
    by (simp add: rest_gorgon_def hd dict_get_default_def gorgon_fallback_def
        split: sum.splits json.splits)
  have argus: "case argus_get_sign R (req_params request) ?stub ?ts of
        Inl e \<Rightarrow> rest_argus R request ?ts = JStr ''placeholder_argus_value''
      | Inr v \<Rightarrow> rest_argus R request ?ts
                 = (if truthy v then v else JStr ''placeholder_argus_value'')"
    by (simp add: rest_argus_def stub argus_placeholder_def split: sum.splits)
  have ladon: "case ladon_encrypt R ?ts of
        Inl e \<Rightarrow> rest_ladon R ?ts = JStr ''placeholder_ladon_value''
      | Inr v \<Rightarrow> rest_ladon R ?ts = (if truthy v then v else JStr ''placeholder_ladon_value'')"
    by (simp add: rest_ladon_def ladon_placeholder_def split: sum.splits)
  from res gorgon argus ladon show ?thesis
    unfolding Let_def by blast
qed

theorem rest_partial_degradation_witness:
  "new_XGorgon gorgon_failing_rest_signer = None
   \<and> new_XArgus gorgon_failing_rest_signer = None
   \<and> new_XLadon gorgon_failing_rest_signer = None
   \<and> rest_generate_headers demo_lib gorgon_failing_rest_signer
        \<lparr>req_params = ''aid=1233'', req_cookies = ''sid=1'', req_stub = None,
         req_timestamp = Some 1700000000, req_device_id = None, req_install_id = None\<rparr> 1700000005
      = Inr (JDict [(''success'', JBool True),
                    (''headers'', JDict [(''X-Gorgon'', JStr ''0404000000000000000000000000000000000000''),
                                         (''X-Khronos'', JStr ''1700000000''),
                                         (''X-Argus'', JStr ''argus-signature''),
                                         (''X-Ladon'', JStr ''ladon-token'')]),
                    (''timestamp'', JInt 1700000000)])"
proof -
  have h1: "new_XGorgon gorgon_failing_rest_signer = None"
    and h2: "new_XArgus gorgon_failing_rest_signer = None"
    and h3: "new_XLadon gorgon_failing_rest_signer = None"
    by (simp_all add: gorgon_failing_rest_signer_def)
  have ts: "str_int 1700000000 = ''1700000000''"
    by (simp add: str_int_def str_nat.simps digit_char_def)
  from rest_partial_degradation [OF h1 h2 h3, where L = demo_lib and now = 1700000005
      and request = "\<lparr>req_params = ''aid=1233'', req_cookies = ''sid=1'', req_stub = None,
        req_timestamp = Some 1700000000, req_device_id = None, req_install_id = None\<rparr>"]
  have "rest_generate_headers demo_lib gorgon_failing_rest_signer
        \<lparr>req_params = ''aid=1233'', req_cookies = ''sid=1'', req_stub = None,
         req_timestamp = Some 1700000000, req_device_id = None, req_install_id = None\<rparr> 1700000005
      = Inr (JDict [(''success'', JBool True),
                    (''headers'', JDict [(''X-Gorgon'', JStr ''0404000000000000000000000000000000000000''),
                                         (''X-Khronos'', JStr ''1700000000''),
                                         (''X-Argus'', JStr ''argus-signature''),
                                         (''X-Ladon'', JStr ''ladon-token'')]),
                    (''timestamp'', JInt 1700000000)])"
    by (auto simp: Let_def gorgon_failing_rest_signer_def ts)
  with h1 h2 h3 show ?thesis by blast
qed

text \<open>
  C9 as stated fails: when the \<^verbatim>\<open>XArgus\<close> constructor raises, the request fails as a whole
  with HTTP 500 and no header is returned, although every signing computation would return.
\<close>

theorem constructor_failure_counterexample:
  "rest_generate_headers demo_lib unconstructible_rest_signer
        \<lparr>req_params = ''aid=1233'', req_cookies = ''sid=1'', req_stub = None,
         req_timestamp = Some 1700000000, req_device_id = None, req_install_id = None\<rparr> 1700000005
      = Inl (HTTPException 500 ''init failed'')"
  by (simp add: rest_generate_headers_def initialize_generators_def
      unconstructible_rest_signer_def)

end
